theory Spec2Isabelle
  imports Main "HOL-Library.Finite_Map" "HOL-Library.Char_ord" "HOL-Library.List_Lexorder"
begin

section \<open>Python values\<close>

text \<open>
  The tool reads and writes JSON documents and never checks the types its dataclasses
  declare, so every field holds an arbitrary JSON value. A value is what \<open>json.load\<close>
  returns: an object is a Python dict, kept as the list of its items in insertion order
  (the keys of a parsed object are distinct). A text is a list of characters, one
  \<open>char\<close> for each code point (the model covers the code points below 256), and a
  number is an integer (the numeric fields of the data set, \<open>id\<close> and \<open>type\<close>, are
  integers; numbers with a fraction are not modelled).
\<close>

datatype json =
    JNull
  | JBool bool
  | JInt int
  | JStr string
  | JList "json list"
  | JObj "(string \<times> json) list"

text \<open>The exceptions the modelled code can raise.\<close>

datatype error = KeyError | TypeError | AttributeError | ValueError | JSONDecodeError

text \<open>Sequencing of statements that may raise: the first exception ends the block.\<close>

definition andThen :: "error + 'a \<Rightarrow> ('a \<Rightarrow> error + 'b) \<Rightarrow> error + 'b" where
  "andThen r f = (case r of Inl e \<Rightarrow> Inl e | Inr x \<Rightarrow> f x)"

text \<open>A comprehension \<open>[f(x) for x in xs]\<close> whose body may raise.\<close>

fun traverse :: "('a \<Rightarrow> error + 'b) \<Rightarrow> 'a list \<Rightarrow> error + 'b list" where
  "traverse f [] = Inr []"
| "traverse f (x # xs) =
     andThen (f x) (\<lambda>y. andThen (traverse f xs) (\<lambda>ys. Inr (y # ys)))"

text \<open>\<open>q[k]\<close> with a text key: only a dict can be indexed so, and a missing key raises.\<close>

fun getitem :: "json \<Rightarrow> string \<Rightarrow> error + json" where
  "getitem (JObj kvs) k = (case map_of kvs k of None \<Rightarrow> Inl KeyError | Some v \<Rightarrow> Inr v)"
| "getitem _ k = Inl TypeError"

text \<open>\<open>d.get(k, default)\<close>: only a dict has the method.\<close>

fun get :: "json \<Rightarrow> string \<Rightarrow> json \<Rightarrow> error + json" where
  "get (JObj kvs) k d = Inr (case map_of kvs k of None \<Rightarrow> d | Some v \<Rightarrow> v)"
| "get _ k d = Inl AttributeError"

text \<open>
  \<open>for x in v\<close>: a list gives its elements, a text its characters, a dict its keys;
  nothing else can be iterated.
\<close>

fun py_iter :: "json \<Rightarrow> error + json list" where
  "py_iter (JList xs) = Inr xs"
| "py_iter (JStr s) = Inr (map (\<lambda>c. JStr [c]) s)"
| "py_iter (JObj kvs) = Inr (map (\<lambda>kv. JStr (fst kv)) kvs)"
| "py_iter _ = Inl TypeError"

text \<open>Truth value of a JSON value, as \<open>if v:\<close> tests it.\<close>

fun truthy :: "json \<Rightarrow> bool" where
  "truthy JNull = False"
| "truthy (JBool b) = b"
| "truthy (JInt n) = (n \<noteq> 0)"
| "truthy (JStr s) = (s \<noteq> [])"
| "truthy (JList xs) = (xs \<noteq> [])"
| "truthy (JObj kvs) = (kvs \<noteq> [])"

text \<open>
  The integer a value counts as: \<open>bool\<close> is a subclass of \<open>int\<close> in Python, so \<open>True\<close>
  is an \<open>int\<close> instance and equals 1.
\<close>

fun as_int :: "json \<Rightarrow> int option" where
  "as_int (JInt n) = Some n"
| "as_int (JBool b) = Some (if b then 1 else 0)"
| "as_int _ = None"

text \<open>\<open>v == n\<close> for an integer \<open>n\<close>.\<close>

definition py_eq_int :: "json \<Rightarrow> int \<Rightarrow> bool" where
  "py_eq_int v n = (as_int v = Some n)"


section \<open>The store (data_manager.py)\<close>

record QOption =
  label :: json
  opt_content :: json

record Question =
  qid :: json
  origin_name :: json
  sub_name :: json
  content :: json
  options :: "QOption list"
  answer :: json
  analysis :: json
  comments :: json
  qtype :: json
  user_status :: json
  last_reviewed :: json
  source :: json

record ErrorData =
  meta :: json
  simulation :: "Question list"
  real :: "Question list"
  famous :: "Question list"

text \<open>
  The data file: absent, present but not a JSON document (\<open>json.load\<close> raises), or a
  JSON document. Key order and whitespace are not part of a document's value.
\<close>

datatype data_file = Missing | Unparseable | Content json

definition default_meta :: json where
  "default_meta = JObj [(''last_sync'', JNull), (''version'', JStr ''1.0'')]"

text \<open>\<open>ErrorData(meta={"last_sync": None, "version": "1.0"})\<close>\<close>

definition empty_data :: ErrorData where
  "empty_data = \<lparr>meta = default_meta, simulation = [], real = [], famous = []\<rparr>"

text \<open>
  \<open>Option(**o)\<close>: \<open>o\<close> must be a dict whose keys are exactly the two fields of the
  dataclass; a missing or an unexpected keyword raises TypeError.
\<close>

fun parse_option :: "json \<Rightarrow> error + QOption" where
  "parse_option (JObj kvs) =
     (case (map_of kvs ''label'', map_of kvs ''content'') of
        (Some l, Some c) \<Rightarrow>
          (if set (map fst kvs) = {''label'', ''content''}
           then Inr \<lparr>label = l, opt_content = c\<rparr> else Inl TypeError)
      | _ \<Rightarrow> Inl TypeError)"
| "parse_option _ = Inl TypeError"

text \<open>
  One \<open>Question(...)\<close> of \<open>parse_questions\<close>: the keyword arguments are evaluated in
  the order they are written. Seven keys are read with \<open>q[...]\<close>, five with \<open>q.get\<close>.
\<close>

definition parse_question :: "json \<Rightarrow> error + Question" where
  "parse_question q =
     andThen (getitem q ''id'') (\<lambda>i.
     andThen (getitem q ''origin_name'') (\<lambda>orig.
     andThen (getitem q ''sub_name'') (\<lambda>sub.
     andThen (getitem q ''content'') (\<lambda>cont.
     andThen (getitem q ''options'') (\<lambda>raw_opts.
     andThen (py_iter raw_opts) (\<lambda>os.
     andThen (traverse parse_option os) (\<lambda>opts.
     andThen (getitem q ''answer'') (\<lambda>ans.
     andThen (getitem q ''analysis'') (\<lambda>ana.
     andThen (get q ''comments'' (JList [])) (\<lambda>coms.
     andThen (get q ''type'' (JInt 0)) (\<lambda>ty.
     andThen (get q ''user_status'' (JStr ''new'')) (\<lambda>st.
     andThen (get q ''last_reviewed'' JNull) (\<lambda>lr.
     andThen (get q ''source'' JNull) (\<lambda>src.
       Inr \<lparr>qid = i, origin_name = orig, sub_name = sub, content = cont,
            options = opts, answer = ans, analysis = ana, comments = coms,
            qtype = ty, user_status = st, last_reviewed = lr, source = src\<rparr>
     ))))))))))))))"

definition parse_questions :: "json \<Rightarrow> error + Question list" where
  "parse_questions q_list = andThen (py_iter q_list) (traverse parse_question)"

text \<open>The body of the \<open>try\<close> block of \<open>load_data\<close>, after \<open>json.load\<close> has returned.\<close>

definition parse_data :: "json \<Rightarrow> error + ErrorData" where
  "parse_data raw_data =
     andThen (get raw_data ''meta'' default_meta) (\<lambda>m.
     andThen (get raw_data ''simulation'' (JList [])) (\<lambda>s.
     andThen (parse_questions s) (\<lambda>sim.
     andThen (get raw_data ''real'' (JList [])) (\<lambda>r.
     andThen (parse_questions r) (\<lambda>rea.
     andThen (get raw_data ''famous'' (JList [])) (\<lambda>f.
     andThen (parse_questions f) (\<lambda>fam.
       Inr \<lparr>meta = m, simulation = sim, real = rea, famous = fam\<rparr>)))))))"

text \<open>
  \<open>load_data\<close> returns the data set and what it printed: the exception caught by its
  \<open>except Exception\<close> handler, if any. No exception leaves the function.
\<close>

definition load_data :: "data_file \<Rightarrow> ErrorData \<times> error list" where
  "load_data f =
     (case f of
        Missing \<Rightarrow> (empty_data, [])
      | Unparseable \<Rightarrow> (empty_data, [JSONDecodeError])
      | Content raw_data \<Rightarrow>
          (case parse_data raw_data of
             Inl e \<Rightarrow> (empty_data, [e])
           | Inr d \<Rightarrow> (d, [])))"

text \<open>\<open>dataclasses.asdict\<close>: a dict of the fields in declaration order, recursively.\<close>

definition option_asdict :: "QOption \<Rightarrow> json" where
  "option_asdict opt = JObj [(''label'', label opt), (''content'', opt_content opt)]"

definition question_asdict :: "Question \<Rightarrow> json" where
  "question_asdict q =
     JObj [(''id'', qid q), (''origin_name'', origin_name q), (''sub_name'', sub_name q),
           (''content'', content q), (''options'', JList (map option_asdict (options q))),
           (''answer'', answer q), (''analysis'', analysis q), (''comments'', comments q),
           (''type'', qtype q), (''user_status'', user_status q),
           (''last_reviewed'', last_reviewed q), (''source'', source q)]"

definition asdict :: "ErrorData \<Rightarrow> json" where
  "asdict d =
     JObj [(''meta'', meta d),
           (''simulation'', JList (map question_asdict (simulation d))),
           (''real'', JList (map question_asdict (real d))),
           (''famous'', JList (map question_asdict (famous d)))]"

text \<open>\<open>save_data\<close> rewrites the whole file; the result is the new file.\<close>

definition save_data :: "ErrorData \<Rightarrow> data_file" where
  "save_data d = Content (asdict d)"

text \<open>
  The inner loop of \<open>update_question_status\<close> over one bucket: the first question
  whose id equals \<open>question_id\<close> is changed and the loop breaks; \<open>None\<close> when the
  bucket has no such question.
\<close>

fun mark :: "int \<Rightarrow> string \<Rightarrow> string \<Rightarrow> Question list \<Rightarrow> Question list option" where
  "mark question_id new_status timestamp [] = None"
| "mark question_id new_status timestamp (q # qs) =
     (if py_eq_int (qid q) question_id
      then Some (q\<lparr>user_status := JStr new_status, last_reviewed := JStr timestamp\<rparr> # qs)
      else map_option ((#) q) (mark question_id new_status timestamp qs))"

text \<open>
  The outer loop over \<open>[data.simulation, data.real, data.famous]\<close>: \<open>None\<close> when
  \<open>found\<close> stays False.
\<close>

definition mark_data :: "int \<Rightarrow> string \<Rightarrow> string \<Rightarrow> ErrorData \<Rightarrow> ErrorData option" where
  "mark_data question_id new_status timestamp d =
     (case mark question_id new_status timestamp (simulation d) of
        Some qs \<Rightarrow> Some (d\<lparr>simulation := qs\<rparr>)
      | None \<Rightarrow>
     (case mark question_id new_status timestamp (real d) of
        Some qs \<Rightarrow> Some (d\<lparr>real := qs\<rparr>)
      | None \<Rightarrow>
     (case mark question_id new_status timestamp (famous d) of
        Some qs \<Rightarrow> Some (d\<lparr>famous := qs\<rparr>)
      | None \<Rightarrow> None)))"

text \<open>
  \<open>update_question_status\<close>, with the data file as state: \<open>timestamp\<close> is what
  \<open>datetime.datetime.now().isoformat()\<close> returned in this call. The result is the
  returned flag and the file afterwards.
\<close>

definition update_question_status :: "data_file \<Rightarrow> string \<Rightarrow> int \<Rightarrow> string \<Rightarrow> bool \<times> data_file" where
  "update_question_status f timestamp question_id new_status =
     (case mark_data question_id new_status timestamp (fst (load_data f)) of
        Some d \<Rightarrow> (True, save_data d)
      | None \<Rightarrow> (False, f))"

text \<open>The questions of the three buckets in the order of the scan.\<close>

definition all_questions :: "ErrorData \<Rightarrow> Question list" where
  "all_questions d = simulation d @ real d @ famous d"

text \<open>
  An example file: four records that carry the seven required keys only, the id 2 in
  two buckets; and what \<open>load_data\<close> makes of such a record.
\<close>

definition legacy_record :: "int \<Rightarrow> json" where
  "legacy_record n =
     JObj [(''id'', JInt n), (''origin_name'', JStr ''Paper''), (''sub_name'', JStr ''''),
           (''content'', JStr ''Q''),
           (''options'', JList [JObj [(''label'', JStr ''A''), (''content'', JStr ''yes'')]]),
           (''answer'', JList [JStr ''A'']), (''analysis'', JStr '''')]"

definition example_file :: data_file where
  "example_file =
     Content (JObj [(''meta'', default_meta),
                    (''simulation'', JList [legacy_record 1, legacy_record 2]),
                    (''real'', JList [legacy_record 3]),
                    (''famous'', JList [legacy_record 2])])"

definition loaded_question :: "int \<Rightarrow> Question" where
  "loaded_question n =
     \<lparr>qid = JInt n, origin_name = JStr ''Paper'', sub_name = JStr '''', content = JStr ''Q'',
      options = [\<lparr>label = JStr ''A'', opt_content = JStr ''yes''\<rparr>],
      answer = JList [JStr ''A''], analysis = JStr '''', comments = JList [], qtype = JInt 0,
      user_status = JStr ''new'', last_reviewed = JNull, source = JNull\<rparr>"

text \<open>The keys \<open>parse_questions\<close> reads with \<open>q[...]\<close>.\<close>

definition required_keys :: "string list" where
  "required_keys = [''id'', ''origin_name'', ''sub_name'', ''content'', ''options'', ''answer'', ''analysis'']"

text \<open>An example file with one record that lacks required keys, among complete ones.\<close>

definition broken_file :: data_file where
  "broken_file =
     Content (JObj [(''meta'', default_meta),
                    (''simulation'', JList [legacy_record 1, legacy_record 2]),
                    (''real'', JList [legacy_record 3, JObj [(''id'', JInt 4), (''content'', JStr ''Q'')]]),
                    (''famous'', JList [])])"


text \<open>
  The content of a JSON document, key order left out: an object as a finite map from
  keys to contents. Two documents with the same content differ in the order of keys
  only (whitespace is not part of a \<open>json\<close> value in the first place).
\<close>

datatype jvalue =
    VNull
  | VBool bool
  | VInt int
  | VStr string
  | VList "jvalue list"
  | VObj "(string, jvalue) fmap"

primrec value_of :: "json \<Rightarrow> jvalue" where
  "value_of JNull = VNull"
| "value_of (JBool b) = VBool b"
| "value_of (JInt n) = VInt n"
| "value_of (JStr s) = VStr s"
| "value_of (JList xs) = VList (map value_of xs)"
| "value_of (JObj kvs) = VObj (fmap_of_list (map (map_prod id value_of) kvs))"

text \<open>
  The shape of the persisted file (a data set of section 3 of the specification): an
  object with the keys meta, simulation, real and famous, each bucket a list of
  objects with the twelve keys of a question, the options of each a list of objects
  with the keys label and content.
\<close>

definition question_keys :: "string list" where
  "question_keys = [''id'', ''origin_name'', ''sub_name'', ''content'', ''options'', ''answer'',
     ''analysis'', ''comments'', ''type'', ''user_status'', ''last_reviewed'', ''source'']"

fun well_formed_option :: "json \<Rightarrow> bool" where
  "well_formed_option (JObj kvs) = (set (map fst kvs) = {''label'', ''content''})"
| "well_formed_option _ = False"

fun well_formed_question :: "json \<Rightarrow> bool" where
  "well_formed_question (JObj kvs) =
     (set (map fst kvs) = set question_keys \<and>
      (case map_of kvs ''options'' of
         Some (JList os) \<Rightarrow> list_all well_formed_option os
       | _ \<Rightarrow> False))"
| "well_formed_question _ = False"

definition well_formed_bucket :: "json option \<Rightarrow> bool" where
  "well_formed_bucket b = (case b of Some (JList qs) \<Rightarrow> list_all well_formed_question qs | _ \<Rightarrow> False)"

fun well_formed_file :: "data_file \<Rightarrow> bool" where
  "well_formed_file (Content (JObj kvs)) =
     (set (map fst kvs) = {''meta'', ''simulation'', ''real'', ''famous''} \<and>
      well_formed_bucket (map_of kvs ''simulation'') \<and>
      well_formed_bucket (map_of kvs ''real'') \<and>
      well_formed_bucket (map_of kvs ''famous''))"
| "well_formed_file _ = False"

text \<open>
  An example file in the key order in which a sync writes it, which is not the order of
  the dataclass fields.
\<close>

definition synced_record :: "int \<Rightarrow> json" where
  "synced_record n =
     JObj [(''id'', JInt n), (''origin_name'', JStr ''Paper''), (''sub_name'', JStr ''Roll''),
           (''type'', JInt 1), (''content'', JStr ''Q''),
           (''options'', JList [JObj [(''label'', JStr ''A''), (''content'', JStr ''yes'')],
                               JObj [(''content'', JStr ''no''), (''label'', JStr ''B'')]]),
           (''answer'', JList [JStr ''A'']), (''analysis'', JStr ''because''),
           (''user_status'', JStr ''new''), (''last_reviewed'', JNull),
           (''comments'', JList []), (''source'', JStr ''simulation'')]"

definition synced_file :: data_file where
  "synced_file =
     Content (JObj [(''simulation'', JList [synced_record 1, synced_record 2]),
                    (''famous'', JList []),
                    (''meta'', JObj [(''version'', JStr ''1.0''), (''last_sync'', JStr ''2024-05-01T08:00:00Z'')]),
                    (''real'', JList [synced_record 3])])"

section \<open>Python text operations\<close>

text \<open>
  The tables below are those of Python 3 for the code points below 256.
  \<open>str.isspace\<close>, which \<open>str.strip()\<close> uses: the ASCII controls 9 to 13 and 28 to 31,
  the space, NEL (133) and the no-break space (160).
\<close>

definition py_isspace :: "char \<Rightarrow> bool" where
  "py_isspace c =
     (let n = (of_char c :: nat)
      in (9 \<le> n \<and> n \<le> 13) \<or> (28 \<le> n \<and> n \<le> 32) \<or> n = 133 \<or> n = 160)"

definition py_strip :: "string \<Rightarrow> string" where
  "py_strip s = rev (dropWhile py_isspace (rev (dropWhile py_isspace s)))"

text \<open>The decimal digits 0 to 9, the only characters \<open>int()\<close> reads as digits.\<close>

definition is_decimal :: "char \<Rightarrow> bool" where
  "is_decimal c = (let n = (of_char c :: nat) in 48 \<le> n \<and> n \<le> 57)"

definition digit_value :: "char \<Rightarrow> nat" where
  "digit_value c = of_char c - 48"

text \<open>
  \<open>str.isdigit\<close> is wider than the decimal digits: the superscript digits two, three
  and one (178, 179, 185) are digits for it as well. The text must not be empty.
\<close>

definition py_isdigit_char :: "char \<Rightarrow> bool" where
  "py_isdigit_char c =
     (let n = (of_char c :: nat) in is_decimal c \<or> n = 178 \<or> n = 179 \<or> n = 185)"

definition py_isdigit :: "string \<Rightarrow> bool" where
  "py_isdigit s = (s \<noteq> [] \<and> list_all py_isdigit_char s)"

text \<open>
  \<open>str.upper\<close>, character by character: the letters a to z and the Latin-1 letters
  224 to 254 (but the division sign 247) move down by 32, the sharp s (223) becomes SS.
  The capitals of the micro sign (181) and of y with diaeresis (255) lie beyond code
  point 255; the model leaves these two characters as they are.
\<close>

definition py_upper_char :: "char \<Rightarrow> string" where
  "py_upper_char c =
     (let n = (of_char c :: nat)
      in if (97 \<le> n \<and> n \<le> 122) \<or> (224 \<le> n \<and> n \<le> 254 \<and> n \<noteq> 247)
         then [char_of (n - 32)]
         else if n = 223 then ''SS'' else [c])"

definition py_upper :: "string \<Rightarrow> string" where
  "py_upper s = concat (map py_upper_char s)"

text \<open>\<open>s.split(sep)\<close> for a separator of one character: always at least one piece.\<close>

fun split_on :: "char \<Rightarrow> string \<Rightarrow> string list" where
  "split_on sep [] = [[]]"
| "split_on sep (c # cs) =
     (if c = sep then [] # split_on sep cs
      else (case split_on sep cs of
              [] \<Rightarrow> [[c]]
            | p # ps \<Rightarrow> (c # p) # ps))"

text \<open>\<open>sep.join(pieces)\<close>\<close>

fun join :: "string \<Rightarrow> string list \<Rightarrow> string" where
  "join sep [] = []"
| "join sep [p] = p"
| "join sep (p # q # ps) = p @ sep @ join sep (q # ps)"

text \<open>
  \<open>int(s)\<close> for a text: surrounding whitespace is dropped, one sign may lead, then at
  least one decimal digit, with single underscores allowed between digits. Anything
  else raises ValueError. The whitespace \<open>int\<close> drops is narrower than that of
  \<open>str.strip\<close>: the controls 28 to 31 are not part of it.
\<close>

definition int_isspace :: "char \<Rightarrow> bool" where
  "int_isspace c =
     (let n = (of_char c :: nat) in (9 \<le> n \<and> n \<le> 13) \<or> n = 32 \<or> n = 133 \<or> n = 160)"

fun int_digits :: "nat \<Rightarrow> string \<Rightarrow> nat option" where
  "int_digits acc [] = Some acc"
| "int_digits acc [c] = (if is_decimal c then Some (acc * 10 + digit_value c) else None)"
| "int_digits acc (c # d # ds) =
     (if is_decimal c then int_digits (acc * 10 + digit_value c) (d # ds)
      else if c = CHR ''_'' \<and> is_decimal d then int_digits (acc * 10 + digit_value d) ds
      else None)"

definition int_unsigned :: "string \<Rightarrow> nat option" where
  "int_unsigned s =
     (case s of
        [] \<Rightarrow> None
      | c # cs \<Rightarrow> if is_decimal c then int_digits (digit_value c) cs else None)"

definition py_int :: "string \<Rightarrow> error + int" where
  "py_int s =
     (let t = rev (dropWhile int_isspace (rev (dropWhile int_isspace s)));
          r = (case t of
                 [] \<Rightarrow> None
               | c # cs \<Rightarrow>
                   if c = CHR ''-'' then map_option (\<lambda>n. - int n) (int_unsigned cs)
                   else if c = CHR ''+'' then map_option int (int_unsigned cs)
                   else map_option int (int_unsigned t))
      in case r of None \<Rightarrow> Inl ValueError | Some n \<Rightarrow> Inr n)"

text \<open>\<open>str(n)\<close> for an integer: its decimal digits, with a minus sign when negative.\<close>

fun nat_digits :: "nat \<Rightarrow> string" where
  "nat_digits n =
     (if n < 10 then [char_of (48 + n)]
      else nat_digits (n div 10) @ [char_of (48 + n mod 10)])"

definition int_str :: "int \<Rightarrow> string" where
  "int_str n = (if n < 0 then CHR ''-'' # nat_digits (nat (- n)) else nat_digits (nat n))"

text \<open>
  \<open>repr\<close> of a text: single quotes, or double quotes when the text holds a single
  quote and no double quote; the backslash and the quote in use are escaped, tab,
  newline and return are written as letters, and the other characters that are not
  printable (below 32, 127 to 160, 173) as \<open>\xNN\<close>.
\<close>

definition hex_digit :: "nat \<Rightarrow> char" where
  "hex_digit n = (if n < 10 then char_of (48 + n) else char_of (87 + n))"

definition repr_char :: "char \<Rightarrow> char \<Rightarrow> string" where
  "repr_char quote c =
     (let n = (of_char c :: nat)
      in if c = quote \<or> c = CHR 0x5C then [CHR 0x5C, c]
         else if n = 9 then [CHR 0x5C, CHR ''t'']
         else if n = 10 then [CHR 0x5C, CHR ''n'']
         else if n = 13 then [CHR 0x5C, CHR ''r'']
         else if n < 32 \<or> (127 \<le> n \<and> n \<le> 160) \<or> n = 173
         then [CHR 0x5C, CHR ''x'', hex_digit (n div 16), hex_digit (n mod 16)]
         else [c])"

definition repr_str :: "string \<Rightarrow> string" where
  "repr_str s =
     (let quote = (if CHR 0x27 \<in> set s \<and> CHR 0x22 \<notin> set s then CHR 0x22 else CHR 0x27)
      in quote # concat (map (repr_char quote) s) @ [quote])"

text \<open>\<open>repr(v)\<close> and \<open>str(v)\<close> of a JSON value; they differ on a text only.\<close>

primrec py_repr :: "json \<Rightarrow> string" where
  "py_repr JNull = ''None''"
| "py_repr (JBool b) = (if b then ''True'' else ''False'')"
| "py_repr (JInt n) = int_str n"
| "py_repr (JStr s) = repr_str s"
| "py_repr (JList xs) = ''['' @ join '', '' (map py_repr xs) @ '']''"
| "py_repr (JObj kvs) =
     ''{'' @ join '', '' (map (\<lambda>kr. repr_str (fst kr) @ '': '' @ snd kr)
                              (map (map_prod id py_repr) kvs)) @ ''}''"

definition py_str :: "json \<Rightarrow> string" where
  "py_str v = (case v of JStr s \<Rightarrow> s | _ \<Rightarrow> py_repr v)"

section \<open>The normalizer (scraper.py)\<close>

text \<open>
  The loop over the keys a, b, c, d: a key whose value is truthy gives an option with
  the upper-cased key as label.
\<close>

fun collect_options :: "json \<Rightarrow> string list \<Rightarrow> error + json list" where
  "collect_options question_data [] = Inr []"
| "collect_options question_data (key # keys) =
     andThen (get question_data key JNull) (\<lambda>v.
     andThen (collect_options question_data keys) (\<lambda>rest.
       Inr (if truthy v
            then JObj [(''label'', JStr (py_upper key)), (''content'', v)] # rest
            else rest)))"

text \<open>
  The loop over the characters of a numeric answer key: \<open>int(digit)\<close> raises ValueError
  on a character that is not a decimal digit; an index outside 0 to 3 adds nothing.
\<close>

fun digit_labels :: "string \<Rightarrow> error + json list" where
  "digit_labels [] = Inr []"
| "digit_labels (digit # rest) =
     (if is_decimal digit
      then andThen (digit_labels rest) (\<lambda>ls.
             let idx = int (digit_value digit) - 1
             in Inr (if 0 \<le> idx \<and> idx < 4
                     then JStr [''ABCD'' ! nat idx] # ls else ls))
      else Inl ValueError)"

text \<open>The answer list made from \<open>correct_raw\<close>, the stripped text of the field.\<close>

definition decode_answer :: "string \<Rightarrow> error + json list" where
  "decode_answer correct_raw =
     (if correct_raw \<noteq> []
      then (if py_isdigit correct_raw then digit_labels correct_raw
            else Inr (map (\<lambda>label. JStr (py_upper (py_strip label)))
                          (split_on CHR '','' correct_raw)))
      else Inr [])"

text \<open>
  \<open>_normalize_question\<close>: None for a falsy raw question, otherwise the dict of the
  twelve keys, in the order the source writes them.
\<close>

definition normalize_question :: "json \<Rightarrow> string \<Rightarrow> json \<Rightarrow> json \<Rightarrow> error + json option" where
  "normalize_question question_data source_type origin sub =
     (if \<not> truthy question_data then Inr None
      else
        andThen (get question_data ''id'' JNull) (\<lambda>i.
        andThen (get question_data ''type'' (JInt 0)) (\<lambda>ty.
        andThen (get question_data ''title'' (JStr '''')) (\<lambda>title.
        andThen (get question_data ''explain'' (JStr '''')) (\<lambda>explain.
        andThen (collect_options question_data [''a'', ''b'', ''c'', ''d'']) (\<lambda>opts.
        andThen (get question_data ''correct'' (JStr '''')) (\<lambda>correct.
        andThen (decode_answer (py_strip (py_str correct))) (\<lambda>ans.
          Inr (Some (JObj
            [(''id'', i), (''origin_name'', origin), (''sub_name'', sub), (''type'', ty),
             (''content'', title), (''options'', JList opts), (''answer'', JList ans),
             (''analysis'', explain), (''user_status'', JStr ''new''),
             (''last_reviewed'', JNull), (''comments'', JList []),
             (''source'', JStr source_type)]))))))))))"

text \<open>
  What the specification says a numeric answer key decodes to: the label of each digit
  from 1 to 4, nothing for the other digits.
\<close>

definition label_of_digit :: "char \<Rightarrow> json list" where
  "label_of_digit d =
     (if d = CHR ''1'' then [JStr ''A''] else if d = CHR ''2'' then [JStr ''B'']
      else if d = CHR ''3'' then [JStr ''C''] else if d = CHR ''4'' then [JStr ''D''] else [])"

section \<open>Requests, the batcher and the walkers (scraper.py)\<close>

text \<open>
  A call of \<open>make_request\<close> is a request; the service is a function that answers a
  request, given the requests made before it: \<open>None\<close> when \<open>make_request\<close> catches a
  transport error and returns None, the decoded body otherwise. The state a fetching
  function threads through its calls is the list of the requests made so far.
\<close>

record request =
  url :: string
  params :: "(string \<times> json) list"
  version :: string

type_synonym upstream = "request list \<Rightarrow> request \<Rightarrow> json option"

type_synonym 'a fetch = "request list \<Rightarrow> (error + 'a) \<times> request list"

definition ret :: "'a \<Rightarrow> 'a fetch" where
  "ret x h = (Inr x, h)"

definition lift :: "error + 'a \<Rightarrow> 'a fetch" where
  "lift r h = (r, h)"

definition thenDo :: "'a fetch \<Rightarrow> ('a \<Rightarrow> 'b fetch) \<Rightarrow> 'b fetch" where
  "thenDo m f h = (case m h of (Inl e, h') \<Rightarrow> (Inl e, h') | (Inr x, h') \<Rightarrow> f x h')"

definition make_request :: "upstream \<Rightarrow> string \<Rightarrow> (string \<times> json) list \<Rightarrow> string \<Rightarrow> json option fetch" where
  "make_request up u p v h =
     (let r = \<lparr>url = u, params = p, version = v\<rparr> in (Inr (up h r), h @ [r]))"

text \<open>A loop that appends what each round collects to one list.\<close>

fun for_each :: "('a \<Rightarrow> json list fetch) \<Rightarrow> 'a list \<Rightarrow> json list fetch" where
  "for_each f [] = ret []"
| "for_each f (x # xs) =
     thenDo (f x) (\<lambda>ys. thenDo (for_each f xs) (\<lambda>zs. ret (ys @ zs)))"

text \<open>\<open>v or []\<close>\<close>

definition or_empty :: "json \<Rightarrow> json" where
  "or_empty v = (if truthy v then v else JList [])"

text \<open>\<open>(data.get("data") or []) if data else []\<close>\<close>

definition data_of :: "json option \<Rightarrow> error + json" where
  "data_of data =
     (case data of
        None \<Rightarrow> Inr (JList [])
      | Some d \<Rightarrow>
          if truthy d then andThen (get d ''data'' JNull) (\<lambda>v. Inr (or_empty v))
          else Inr (JList []))"

text \<open>The run-time options: module-level variables and the environment.\<close>

record config =
  INCLUDE_COMMENTS :: bool
  INCREMENTAL :: bool
  SELECTED_SOURCES :: "string set"
  BATCH_SIZE :: int
  env_BATCH_SIZE :: "string option"

definition get_question_details :: "upstream \<Rightarrow> json list \<Rightarrow> json fetch" where
  "get_question_details up qids =
     (if qids = [] then ret (JList [])
      else thenDo (make_request up ''/tk/getQuestions''
                     [(''qids'', JStr (join '','' (map py_str qids)))] ''v1'')
             (\<lambda>data. lift (data_of data)))"

text \<open>\<open>range(0, n, step)\<close> for a positive step.\<close>

definition range_step :: "nat \<Rightarrow> nat \<Rightarrow> nat list" where
  "range_step n step = map (\<lambda>k. k * step) [0 ..< (n + step - 1) div step]"

text \<open>
  The batch size when the argument is None: the environment variable read as an
  integer, and the module variable when that fails or the variable is unset.
\<close>

definition resolve_batch_size :: "config \<Rightarrow> int option \<Rightarrow> int" where
  "resolve_batch_size cfg batch_size =
     (case batch_size of
        Some b \<Rightarrow> b
      | None \<Rightarrow>
          (case py_int (case env_BATCH_SIZE cfg of None \<Rightarrow> int_str (BATCH_SIZE cfg) | Some s \<Rightarrow> s) of
             Inl e \<Rightarrow> BATCH_SIZE cfg
           | Inr b \<Rightarrow> b))"

text \<open>
  \<open>get_question_details_batched\<close>: \<open>range\<close> raises ValueError for the step 0 and is
  empty for a negative step. Each round takes the slice \<open>qids[i:i+batch_size]\<close>, asks
  for its details and extends the result with them when they are truthy.
\<close>

definition get_question_details_batched ::
    "upstream \<Rightarrow> config \<Rightarrow> json list \<Rightarrow> int option \<Rightarrow> json list fetch" where
  "get_question_details_batched up cfg qids batch_size =
     (let bs = resolve_batch_size cfg batch_size
      in if bs = 0 then lift (Inl ValueError)
         else if bs < 0 then ret []
         else for_each
                (\<lambda>i. thenDo (get_question_details up (take (nat bs) (drop i qids)))
                        (\<lambda>details. lift (if truthy details then py_iter details else Inr [])))
                (range_step (length qids) (nat bs)))"

text \<open>\<open>needle in text\<close> for two texts.\<close>

fun is_substring :: "string \<Rightarrow> string \<Rightarrow> bool" where
  "is_substring needle [] = (needle = [])"
| "is_substring needle (c # cs) =
     (take (length needle) (c # cs) = needle \<or> is_substring needle cs)"

text \<open>
  \<open>"content" in comment\<close>: a key of a dict, an element of a list, a part of a text; for
  anything else the test raises TypeError.
\<close>

fun py_contains :: "json \<Rightarrow> string \<Rightarrow> error + bool" where
  "py_contains (JObj kvs) k = Inr (k \<in> set (map fst kvs))"
| "py_contains (JList xs) k = Inr (JStr k \<in> set xs)"
| "py_contains (JStr s) k = Inr (is_substring k s)"
| "py_contains _ k = Inl TypeError"

fun comment_contents :: "json list \<Rightarrow> error + json list" where
  "comment_contents [] = Inr []"
| "comment_contents (comment # rest) =
     andThen (py_contains comment ''content'') (\<lambda>has.
     andThen (if has then andThen (getitem comment ''content'') (\<lambda>c. Inr [c]) else Inr []) (\<lambda>cs.
     andThen (comment_contents rest) (\<lambda>more. Inr (cs @ more))))"

definition get_comments :: "upstream \<Rightarrow> json \<Rightarrow> json list fetch" where
  "get_comments up question_id =
     thenDo (make_request up ''/note/getAll'' [(''qid'', question_id), (''page'', JInt 1)] ''v1'')
       (\<lambda>data. lift (andThen (data_of data) (\<lambda>comments_data.
                       andThen (py_iter comments_data) comment_contents)))"

text \<open>\<open>normalized_q["comments"] = comments\<close>: the value of a key the dict has.\<close>

fun dict_set :: "json \<Rightarrow> string \<Rightarrow> json \<Rightarrow> json" where
  "dict_set (JObj kvs) k v = JObj (map (\<lambda>kv. if fst kv = k then (k, v) else kv) kvs)"
| "dict_set d k v = d"

text \<open>\<open>q not in existing\<close> for a set of integers: a list or a dict cannot be hashed.\<close>

fun py_member :: "json \<Rightarrow> int set \<Rightarrow> error + bool" where
  "py_member (JList xs) s = Inl TypeError"
| "py_member (JObj kvs) s = Inl TypeError"
| "py_member v s = Inr (case as_int v of None \<Rightarrow> False | Some n \<Rightarrow> n \<in> s)"

fun drop_existing :: "int set \<Rightarrow> json list \<Rightarrow> error + json list" where
  "drop_existing existing [] = Inr []"
| "drop_existing existing (q # qs) =
     andThen (py_member q existing) (\<lambda>there.
     andThen (drop_existing existing qs) (\<lambda>rest. Inr (if there then rest else q # rest)))"

text \<open>
  The part the three walkers share, written out three times in the source: the ids of
  one roll, paper or chapter are filtered against the existing ids when there are any,
  their details fetched in batches, and each detail normalized; the comments are
  fetched only when the option is on.
\<close>

definition fetch_unit ::
    "upstream \<Rightarrow> config \<Rightarrow> int set \<Rightarrow> string \<Rightarrow> json \<Rightarrow> json \<Rightarrow> json list \<Rightarrow> json list fetch" where
  "fetch_unit up cfg existing source_type origin sub qids =
     thenDo (lift (if existing \<noteq> {} then drop_existing existing qids else Inr qids)) (\<lambda>qids'.
       if existing \<noteq> {} \<and> qids' = [] then ret []
       else thenDo (get_question_details_batched up cfg qids' None)
              (for_each (\<lambda>q_data.
                 thenDo (if INCLUDE_COMMENTS cfg
                         then thenDo (lift (get q_data ''id'' JNull)) (get_comments up)
                         else ret [])
                   (\<lambda>comments.
                 thenDo (lift (normalize_question q_data source_type origin sub))
                   (\<lambda>normalized_q.
                 ret (case normalized_q of
                        None \<Rightarrow> []
                      | Some q \<Rightarrow> if truthy q then [dict_set q ''comments'' (JList comments)]
                                  else []))))))"

text \<open>\<open>list(map(int, qids_str.split(',')))\<close>: only a text has \<open>split\<close>.\<close>

fun parse_qids :: "json \<Rightarrow> error + json list" where
  "parse_qids (JStr s) = traverse (\<lambda>piece. andThen (py_int piece) (\<lambda>n. Inr (JInt n))) (split_on CHR '','' s)"
| "parse_qids _ = Inl AttributeError"

text \<open>The rows of a listing: \<open>for x in (d.get(key) or [])\<close>.\<close>

definition rows :: "json \<Rightarrow> string \<Rightarrow> error + json list" where
  "rows d key = andThen (get d key JNull) (\<lambda>v. py_iter (or_empty v))"

definition fetch_simulation_errors :: "upstream \<Rightarrow> config \<Rightarrow> int set \<Rightarrow> json list fetch" where
  "fetch_simulation_errors up cfg existing =
     thenDo (make_request up ''/tk/getError'' [(''type'', JInt 5)] ''v2'') (\<lambda>papers_data.
       case papers_data of
         None \<Rightarrow> ret []
       | Some pd \<Rightarrow>
           if \<not> truthy pd then ret []
           else thenDo (lift (rows pd ''data''))
                  (for_each (\<lambda>paper.
                     thenDo (lift (get paper ''name'' (JStr ''Unknown Paper''))) (\<lambda>origin.
                     thenDo (lift (rows paper ''list''))
                       (for_each (\<lambda>roll.
                          thenDo (lift (get roll ''name'' (JStr ''Unknown Roll''))) (\<lambda>sub.
                          thenDo (lift (get roll ''qids'' JNull)) (\<lambda>qids_str.
                            if \<not> truthy qids_str then ret []
                            else thenDo (lift (parse_qids qids_str))
                                   (fetch_unit up cfg existing ''simulation'' origin sub)))))))))"

definition fetch_real_exam_errors :: "upstream \<Rightarrow> config \<Rightarrow> int set \<Rightarrow> json list fetch" where
  "fetch_real_exam_errors up cfg existing =
     thenDo (make_request up ''/tk/getError'' [(''type'', JInt 4)] ''v2'') (\<lambda>papers_data.
       case papers_data of
         None \<Rightarrow> ret []
       | Some pd \<Rightarrow>
           if \<not> truthy pd then ret []
           else thenDo (lift (rows pd ''data''))
                  (for_each (\<lambda>paper.
                     thenDo (lift (get paper ''name'' (JStr ''Unknown Real Exam''))) (\<lambda>origin.
                     thenDo (lift (get paper ''qids'' JNull)) (\<lambda>qids_str.
                       if \<not> truthy qids_str then ret []
                       else thenDo (lift (parse_qids qids_str))
                              (fetch_unit up cfg existing ''real'' origin (JStr '''')))))))"

text \<open>
  \<open>[q_item.get("qId") for q_item in (chapter_data.get("questions") or [])
  if q_item.get("qId")]\<close>
\<close>

fun question_qids :: "json list \<Rightarrow> error + json list" where
  "question_qids [] = Inr []"
| "question_qids (q_item # rest) =
     andThen (get q_item ''qId'' JNull) (\<lambda>q.
     andThen (question_qids rest) (\<lambda>more. Inr (if truthy q then q # more else more)))"

definition fetch_famous_errors :: "upstream \<Rightarrow> config \<Rightarrow> int set \<Rightarrow> json list fetch" where
  "fetch_famous_errors up cfg existing =
     thenDo (make_request up ''/tk/getError'' [(''type'', JInt 3)] ''v2'') (\<lambda>classes_data.
       case classes_data of
         None \<Rightarrow> ret []
       | Some cd \<Rightarrow>
           if \<not> truthy cd then ret []
           else thenDo (lift (rows cd ''data''))
                  (for_each (\<lambda>class_item.
                     thenDo (lift (get class_item ''id'' JNull)) (\<lambda>class_id.
                     thenDo (lift (get class_item ''name'' (JStr ''Unknown Famous Teacher Class''))) (\<lambda>origin.
                       if \<not> truthy class_id then ret []
                       else
                         thenDo (make_request up ''/tk/famousTk/getBooks'' [(''classId'', class_id)] ''v1'')
                           (\<lambda>books_data.
                         thenDo (lift (data_of books_data)) (\<lambda>books0.
                         thenDo (lift (py_iter (if truthy books0 then books0
                                   else JList [JObj [(''id'', JInt 1), (''name'', JStr ''Default Book'')]])))
                           (for_each (\<lambda>book.
                              thenDo (lift (get book ''id'' JNull)) (\<lambda>book_id.
                                if \<not> truthy book_id then ret []
                                else
                                  thenDo (make_request up ''/tk/getFamousByError''
                                            [(''classId'', class_id), (''bookId'', book_id)] ''v1'')
                                    (\<lambda>questions_list_data.
                                       case questions_list_data of
                                         None \<Rightarrow> ret []
                                       | Some qld \<Rightarrow>
                                           if \<not> truthy qld then ret []
                                           else thenDo (lift (rows qld ''data''))
                                                  (for_each (\<lambda>chapter_data.
                                                     thenDo (lift (get chapter_data ''name'' (JStr ''Unknown Chapter''))) (\<lambda>sub.
                                                     thenDo (lift (andThen (rows chapter_data ''questions'') question_qids)) (\<lambda>qids.
                                                       if qids = [] then ret []
                                                       else fetch_unit up cfg existing ''famous'' origin sub qids)))))))))))))))"

text \<open>
  \<open>_load_existing_ids\<close>: the ids of the three buckets of the data file that are
  \<open>int\<close> instances. Any exception ends the reading and is swallowed; what was
  collected up to it is returned.
\<close>

fun ids_of :: "json list \<Rightarrow> int set \<times> bool" where
  "ids_of [] = ({}, True)"
| "ids_of (q # qs) =
     (case get q ''id'' JNull of
        Inl e \<Rightarrow> ({}, False)
      | Inr i \<Rightarrow>
          (case ids_of qs of
             (s, finished) \<Rightarrow>
               ((case as_int i of None \<Rightarrow> s | Some n \<Rightarrow> insert n s), finished)))"

definition bucket_ids :: "json \<Rightarrow> string \<Rightarrow> int set \<times> bool" where
  "bucket_ids jd k = (case rows jd k of Inl e \<Rightarrow> ({}, False) | Inr qs \<Rightarrow> ids_of qs)"

record existing_ids =
  ids_simulation :: "int set"
  ids_real :: "int set"
  ids_famous :: "int set"

definition no_ids :: existing_ids where
  "no_ids = \<lparr>ids_simulation = {}, ids_real = {}, ids_famous = {}\<rparr>"

definition load_existing_ids :: "data_file \<Rightarrow> existing_ids" where
  "load_existing_ids f =
     (case f of
        Content jd \<Rightarrow>
          (case bucket_ids jd ''simulation'' of
             (s, False) \<Rightarrow> no_ids\<lparr>ids_simulation := s\<rparr>
           | (s, True) \<Rightarrow>
          (case bucket_ids jd ''real'' of
             (r, False) \<Rightarrow> no_ids\<lparr>ids_simulation := s, ids_real := r\<rparr>
           | (r, True) \<Rightarrow>
               \<lparr>ids_simulation = s, ids_real = r, ids_famous = fst (bucket_ids jd ''famous'')\<rparr>))
      | _ \<Rightarrow> no_ids)"

text \<open>
  \<open>fetch_all_errors\<close>: \<open>now\<close> is what \<open>time.strftime\<close> returned. The result is the
  dict of the new data set, built from what the selected walkers return.
\<close>

definition fetch_all_errors :: "upstream \<Rightarrow> config \<Rightarrow> data_file \<Rightarrow> string \<Rightarrow> json fetch" where
  "fetch_all_errors up cfg f now =
     (let existing = (if INCREMENTAL cfg then load_existing_ids f else no_ids)
      in thenDo (if ''simulation'' \<in> SELECTED_SOURCES cfg
                 then fetch_simulation_errors up cfg (ids_simulation existing) else ret [])
           (\<lambda>simulation_errors.
         thenDo (if ''real'' \<in> SELECTED_SOURCES cfg
                 then fetch_real_exam_errors up cfg (ids_real existing) else ret [])
           (\<lambda>real_errors.
         thenDo (if ''famous'' \<in> SELECTED_SOURCES cfg
                 then fetch_famous_errors up cfg (ids_famous existing) else ret [])
           (\<lambda>famous_errors.
         ret (JObj [(''meta'', JObj [(''last_sync'', JStr now), (''version'', JStr ''1.0'')]),
                    (''simulation'', JList simulation_errors),
                    (''real'', JList real_errors),
                    (''famous'', JList famous_errors)])))))"

text \<open>
  \<open>sync_data\<close> (interactive_cli.py): the result of \<open>fetch_all_errors\<close> overwrites the
  data file; an exception leaves the file as it was and gives False.
\<close>

definition sync_data ::
    "upstream \<Rightarrow> config \<Rightarrow> data_file \<Rightarrow> string \<Rightarrow> request list \<Rightarrow> (bool \<times> data_file) \<times> request list" where
  "sync_data up cfg f now h =
     (case fetch_all_errors up cfg f now h of
        (Inl e, h') \<Rightarrow> ((False, f), h')
      | (Inr new_data_dict, h') \<Rightarrow> ((True, Content new_data_dict), h'))"

section \<open>What the specification says of the batcher\<close>

text \<open>The contiguous chunks of at most \<open>n\<close> elements, in the order of the list.\<close>

function chunks :: "nat \<Rightarrow> 'a list \<Rightarrow> 'a list list" where
  "chunks n xs = (if n = 0 \<or> xs = [] then [] else take n xs # chunks n (drop n xs))"
  by pat_completeness auto
termination
  by (relation "measure (\<lambda>(n, xs). length xs)") auto

text \<open>The request for the details of one chunk.\<close>

definition details_request :: "json list \<Rightarrow> request" where
  "details_request batch =
     \<lparr>url = ''/tk/getQuestions'',
      params = [(''qids'', JStr (join '','' (map py_str batch)))],
      version = ''v1''\<rparr>"




section \<open>An example service and an example run\<close>

text \<open>
  The service of the examples has one simulated paper with one roll of the ids 1 to 5
  and nothing else. It answers a details request with one raw question for each id
  asked for, but the request for the ids 3 and 4 together fails.
\<close>

definition raw_question :: "json \<Rightarrow> json" where
  "raw_question i =
     JObj [(''id'', i), (''title'', JStr ''Q''), (''a'', JStr ''yes''), (''b'', JStr ''no''),
           (''correct'', JStr ''1'')]"

definition example_upstream :: upstream where
  "example_upstream h r =
     (if url r = ''/tk/getError'' then
        (if params r = [(''type'', JInt 5)] then
           Some (JObj [(''data'', JList [JObj [(''name'', JStr ''Paper A''),
                   (''list'', JList [JObj [(''name'', JStr ''Roll 1''),
                                           (''qids'', JStr ''1,2,3,4,5'')]])]])])
         else Some (JObj [(''data'', JList [])]))
      else if url r = ''/tk/getQuestions'' then
        (case map_of (params r) ''qids'' of
           Some (JStr s) \<Rightarrow>
             (if s = ''3,4'' then None
              else (case parse_qids (JStr s) of
                      Inl e \<Rightarrow> None
                    | Inr ids \<Rightarrow> Some (JObj [(''data'', JList (map raw_question ids))])))
         | _ \<Rightarrow> None)
      else None)"

definition example_config :: config where
  "example_config =
     \<lparr>INCLUDE_COMMENTS = False, INCREMENTAL = True,
      SELECTED_SOURCES = {''simulation'', ''real'', ''famous''},
      BATCH_SIZE = 50, env_BATCH_SIZE = None\<rparr>"

text \<open>The data file before the example run: the simulation bucket holds the ids 1, 2, 3.\<close>

definition local_file :: data_file where
  "local_file =
     Content (JObj [(''meta'', JObj [(''last_sync'', JStr ''2024-05-01T08:00:00Z''), (''version'', JStr ''1.0'')]),
                    (''simulation'', JList [synced_record 1, synced_record 2, synced_record 3]),
                    (''real'', JList []),
                    (''famous'', JList [])])"

text \<open>What \<open>_normalize_question\<close> makes of a raw question of the example service.\<close>

definition fetched_question :: "int \<Rightarrow> json" where
  "fetched_question n =
     JObj [(''id'', JInt n), (''origin_name'', JStr ''Paper A''), (''sub_name'', JStr ''Roll 1''),
           (''type'', JInt 0), (''content'', JStr ''Q''),
           (''options'', JList [JObj [(''label'', JStr ''A''), (''content'', JStr ''yes'')],
                               JObj [(''label'', JStr ''B''), (''content'', JStr ''no'')]]),
           (''answer'', JList [JStr ''A'']), (''analysis'', JStr ''''),
           (''user_status'', JStr ''new''), (''last_reviewed'', JNull),
           (''comments'', JList []), (''source'', JStr ''simulation'')]"


section \<open>Properties of the store\<close>

subsection \<open>Saving and loading again\<close>

lemma parse_option_asdict: "parse_option (option_asdict opt) = Inr opt"
  by (auto simp: option_asdict_def)

lemma traverse_map_inverse:
  "(\<And>x. f (g x) = Inr x) \<Longrightarrow> traverse f (map g xs) = Inr xs"
  by (induction xs) (simp_all add: andThen_def)

lemma parse_question_asdict: "parse_question (question_asdict q) = Inr q"
  by (simp add: parse_question_def question_asdict_def andThen_def
      traverse_map_inverse [of parse_option option_asdict, OF parse_option_asdict])

lemma parse_questions_asdict: "parse_questions (JList (map question_asdict qs)) = Inr qs"
  by (simp add: parse_questions_def andThen_def
      traverse_map_inverse [of parse_question question_asdict, OF parse_question_asdict])

lemma parse_data_asdict: "parse_data (asdict d) = Inr d"
  by (simp add: parse_data_def asdict_def andThen_def parse_questions_asdict)

lemma load_save: "load_data (save_data d) = (d, [])"
  by (simp add: load_data_def save_data_def parse_data_asdict)

subsection \<open>The scan of the buckets\<close>

lemma mark_None: "mark k st ts qs = None \<longleftrightarrow> (\<forall>q\<in>set qs. \<not> py_eq_int (qid q) k)"
  by (induction qs) auto

lemma mark_Some:
  "mark k st ts qs = Some qs' \<longleftrightarrow>
     (\<exists>xs q ys. qs = xs @ q # ys \<and> (\<forall>x\<in>set xs. \<not> py_eq_int (qid x) k) \<and> py_eq_int (qid q) k
        \<and> qs' = xs @ q\<lparr>user_status := JStr st, last_reviewed := JStr ts\<rparr> # ys)"
proof (induction qs arbitrary: qs')
  case Nil
  then show ?case by simp
next
  case (Cons a qs)
  show ?case
  proof (cases "py_eq_int (qid a) k")
    case True
    show ?thesis
    proof
      assume "mark k st ts (a # qs) = Some qs'"
      with True have "qs' = a\<lparr>user_status := JStr st, last_reviewed := JStr ts\<rparr> # qs" by simp
      with True show "\<exists>xs q ys. a # qs = xs @ q # ys \<and> (\<forall>x\<in>set xs. \<not> py_eq_int (qid x) k) \<and> py_eq_int (qid q) k
        \<and> qs' = xs @ q\<lparr>user_status := JStr st, last_reviewed := JStr ts\<rparr> # ys"
        by (intro exI [of _ "[]"] exI [of _ a] exI [of _ qs]) simp
    next
      assume "\<exists>xs q ys. a # qs = xs @ q # ys \<and> (\<forall>x\<in>set xs. \<not> py_eq_int (qid x) k) \<and> py_eq_int (qid q) k
        \<and> qs' = xs @ q\<lparr>user_status := JStr st, last_reviewed := JStr ts\<rparr> # ys"
      then obtain xs q ys where h: "a # qs = xs @ q # ys" "\<forall>x\<in>set xs. \<not> py_eq_int (qid x) k"
        "qs' = xs @ q\<lparr>user_status := JStr st, last_reviewed := JStr ts\<rparr> # ys" by blast
      from h(1,2) True have "xs = []" by (cases xs) auto
      with h True show "mark k st ts (a # qs) = Some qs'" by simp
    qed
  next
    case False
    show ?thesis
    proof
      assume "mark k st ts (a # qs) = Some qs'"
      with False obtain r where r: "mark k st ts qs = Some r" "qs' = a # r" by auto
      with Cons.IH [of r] obtain xs q ys where h: "qs = xs @ q # ys" "\<forall>x\<in>set xs. \<not> py_eq_int (qid x) k"
        "py_eq_int (qid q) k" "r = xs @ q\<lparr>user_status := JStr st, last_reviewed := JStr ts\<rparr> # ys" by blast
      with r False show "\<exists>xs q ys. a # qs = xs @ q # ys \<and> (\<forall>x\<in>set xs. \<not> py_eq_int (qid x) k) \<and> py_eq_int (qid q) k
        \<and> qs' = xs @ q\<lparr>user_status := JStr st, last_reviewed := JStr ts\<rparr> # ys"
        by (intro exI [of _ "a # xs"] exI [of _ q] exI [of _ ys]) simp
    next
      assume "\<exists>xs q ys. a # qs = xs @ q # ys \<and> (\<forall>x\<in>set xs. \<not> py_eq_int (qid x) k) \<and> py_eq_int (qid q) k
        \<and> qs' = xs @ q\<lparr>user_status := JStr st, last_reviewed := JStr ts\<rparr> # ys"
      then obtain xs q ys where h: "a # qs = xs @ q # ys" "\<forall>x\<in>set xs. \<not> py_eq_int (qid x) k"
        "py_eq_int (qid q) k" "qs' = xs @ q\<lparr>user_status := JStr st, last_reviewed := JStr ts\<rparr> # ys" by blast
      from h(1,3) False obtain xs' where xs': "xs = a # xs'" by (cases xs) auto
      with h have "mark k st ts qs = Some (xs' @ q\<lparr>user_status := JStr st, last_reviewed := JStr ts\<rparr> # ys)"
        using Cons.IH [of "xs' @ q\<lparr>user_status := JStr st, last_reviewed := JStr ts\<rparr> # ys"] by auto
      with False xs' h show "mark k st ts (a # qs) = Some qs'" by simp
    qed
  qed
qed

lemma mark_index:
  "mark k st ts qs =
     (let i = length (takeWhile (\<lambda>q. \<not> py_eq_int (qid q) k) qs)
      in if i < length qs then Some (qs[i := (qs ! i)\<lparr>user_status := JStr st, last_reviewed := JStr ts\<rparr>]) else None)"
  by (induction qs) (auto simp: Let_def)

lemma mark_length: "mark k st ts qs = Some qs' \<Longrightarrow> length qs' = length qs"
  by (auto simp: mark_index Let_def split: if_splits)

lemma mark_append_Some:
  "mark k st ts a = Some a' \<Longrightarrow> mark k st ts (a @ b) = Some (a' @ b)"
  by (induction a arbitrary: a') (auto split: if_splits)

lemma mark_append_None:
  "mark k st ts a = None \<Longrightarrow> mark k st ts (a @ b) = map_option ((@) a) (mark k st ts b)"
proof (induction a)
  case Nil
  show ?case by (cases "mark k st ts b") simp_all
next
  case (Cons q a)
  then show ?case by (cases "mark k st ts b") (simp_all split: if_splits)
qed

lemma mark_data_None:
  "mark_data k st ts d = None \<longleftrightarrow> mark k st ts (all_questions d) = None"
proof (cases "mark k st ts (simulation d)")
  case (Some a)
  then show ?thesis
    by (simp add: mark_data_def all_questions_def mark_append_Some)
next
  case sim: None
  show ?thesis
  proof (cases "mark k st ts (real d)")
    case (Some a)
    with sim show ?thesis
      by (simp add: mark_data_def all_questions_def mark_append_Some mark_append_None)
  next
    case rea: None
    with sim show ?thesis
      by (cases "mark k st ts (famous d)")
         (simp_all add: mark_data_def all_questions_def mark_append_None)
  qed
qed

lemma mark_data_Some:
  assumes "mark_data k st ts d = Some d'"
  shows "mark k st ts (all_questions d) = Some (all_questions d') \<and> meta d' = meta d
     \<and> length (simulation d') = length (simulation d)
     \<and> length (real d') = length (real d)
     \<and> length (famous d') = length (famous d)"
proof (cases "mark k st ts (simulation d)")
  case (Some a)
  with assms have "d' = d\<lparr>simulation := a\<rparr>" by (simp add: mark_data_def)
  with Some show ?thesis
    by (simp add: all_questions_def mark_append_Some mark_length)
next
  case sim: None
  show ?thesis
  proof (cases "mark k st ts (real d)")
    case (Some a)
    with sim assms have "d' = d\<lparr>real := a\<rparr>" by (simp add: mark_data_def)
    with sim Some show ?thesis
      by (simp add: all_questions_def mark_append_Some mark_append_None mark_length)
  next
    case rea: None
    show ?thesis
    proof (cases "mark k st ts (famous d)")
      case None
      with sim rea assms show ?thesis by (simp add: mark_data_def)
    next
      case (Some a)
      with sim rea assms have "d' = d\<lparr>famous := a\<rparr>" by (simp add: mark_data_def)
      with sim rea Some show ?thesis
        by (simp add: all_questions_def mark_append_None mark_length)
    qed
  qed
qed

lemma mark_again:
  "mark k st t1 qs = Some qs1 \<Longrightarrow> mark k st t2 qs1 = mark k st t2 qs"
  by (induction qs arbitrary: qs1) (auto split: if_splits)

lemma mark_None_any:
  "mark k st t1 qs = None \<Longrightarrow> mark k st t2 qs = None"
  by (simp add: mark_None)

lemma mark_Some_any:
  "mark k st t1 qs = Some qs1 \<Longrightarrow> \<exists>qs2. mark k st t2 qs = Some qs2"
  using mark_None [of k st t1 qs] mark_None [of k st t2 qs] by (cases "mark k st t2 qs") auto

lemma mark_data_again:
  assumes "mark_data k st t1 d = Some d1"
  shows "mark_data k st t2 d1 = mark_data k st t2 d"
proof (cases "mark k st t1 (simulation d)")
  case (Some a)
  with assms have d1: "d1 = d\<lparr>simulation := a\<rparr>" by (simp add: mark_data_def)
  from mark_Some_any [OF Some] obtain a2 where "mark k st t2 (simulation d) = Some a2" by blast
  with d1 show ?thesis
    by (simp add: mark_data_def mark_again [OF Some])
next
  case sim: None
  show ?thesis
  proof (cases "mark k st t1 (real d)")
    case (Some a)
    with sim assms have d1: "d1 = d\<lparr>real := a\<rparr>" by (simp add: mark_data_def)
    from mark_Some_any [OF Some] obtain a2 where "mark k st t2 (real d) = Some a2" by blast
    with d1 mark_None_any [OF sim] show ?thesis
      by (simp add: mark_data_def mark_again [OF Some])
  next
    case rea: None
    show ?thesis
    proof (cases "mark k st t1 (famous d)")
      case None
      with sim rea assms show ?thesis by (simp add: mark_data_def)
    next
      case (Some a)
      with sim rea assms have d1: "d1 = d\<lparr>famous := a\<rparr>" by (simp add: mark_data_def)
      from mark_Some_any [OF Some] obtain a2 where "mark k st t2 (famous d) = Some a2" by blast
      with d1 mark_None_any [OF sim] mark_None_any [OF rea] show ?thesis
        by (simp add: mark_data_def mark_again [OF Some])
    qed
  qed
qed

subsection \<open>An example file of legacy records\<close>

lemma parse_legacy_record: "parse_question (legacy_record n) = Inr (loaded_question n)"
  by (simp add: parse_question_def legacy_record_def loaded_question_def andThen_def)

lemma load_example_file:
  "load_data example_file =
     (\<lparr>meta = default_meta, simulation = [loaded_question 1, loaded_question 2],
       real = [loaded_question 3], famous = [loaded_question 2]\<rparr>, [])"
  by (simp add: load_data_def example_file_def parse_data_def parse_questions_def andThen_def
      parse_legacy_record)

subsection \<open>Point update\<close>

text \<open>
  C3. \<open>update_question_status\<close> loads the data set and scans the simulation, real and
  famous buckets in this order. If no question of any bucket has the id, it returns
  False and the file is the one it was, nothing being written. Otherwise the first
  question with the id, in the order of the scan, gets the new status and the timestamp
  of the call, nothing after it is looked at, and True is returned; the file afterwards
  is the document of the changed data set, and loading it gives that data set.
\<close>

theorem update_question_status_scan:
  "((\<forall>q\<in>set (all_questions (fst (load_data f))). \<not> py_eq_int (qid q) k)
      \<longrightarrow> update_question_status f ts k st = (False, f)) \<and>
   (\<forall>xs q ys. all_questions (fst (load_data f)) = xs @ q # ys
        \<and> (\<forall>x\<in>set xs. \<not> py_eq_int (qid x) k) \<and> py_eq_int (qid q) k
      \<longrightarrow> (\<exists>d'. update_question_status f ts k st = (True, Content (asdict d'))
             \<and> load_data (snd (update_question_status f ts k st)) = (d', [])
             \<and> all_questions d' = xs @ q\<lparr>user_status := JStr st, last_reviewed := JStr ts\<rparr> # ys
             \<and> length (simulation d') = length (simulation (fst (load_data f)))
             \<and> length (real d') = length (real (fst (load_data f)))
             \<and> length (famous d') = length (famous (fst (load_data f)))
             \<and> meta d' = meta (fst (load_data f))))"
proof (intro conjI impI allI)
  assume "\<forall>q\<in>set (all_questions (fst (load_data f))). \<not> py_eq_int (qid q) k"
  then have "mark_data k st ts (fst (load_data f)) = None"
    by (simp add: mark_data_None mark_None)
  then show "update_question_status f ts k st = (False, f)"
    by (simp add: update_question_status_def)
next
  fix xs ys :: "Question list" and q :: Question
  let ?d = "fst (load_data f)"
  let ?q' = "q\<lparr>user_status := JStr st, last_reviewed := JStr ts\<rparr>"
  assume h: "all_questions ?d = xs @ q # ys
      \<and> (\<forall>x\<in>set xs. \<not> py_eq_int (qid x) k) \<and> py_eq_int (qid q) k"
  then have m: "mark k st ts (all_questions ?d) = Some (xs @ ?q' # ys)"
    by (subst mark_Some) blast
  then have "mark_data k st ts ?d \<noteq> None"
    by (simp add: mark_data_None)
  then obtain d' where d': "mark_data k st ts ?d = Some d'" by blast
  from mark_data_Some [OF d'] m have "all_questions d' = xs @ ?q' # ys"
    and "length (simulation d') = length (simulation ?d)"
    and "length (real d') = length (real ?d)"
    and "length (famous d') = length (famous ?d)"
    and "meta d' = meta ?d" by simp_all
  moreover from d' have u: "update_question_status f ts k st = (True, Content (asdict d'))"
    by (simp add: update_question_status_def save_data_def)
  moreover have "load_data (snd (update_question_status f ts k st)) = (d', [])"
    using load_save [of d'] by (simp add: u save_data_def)
  ultimately show "\<exists>d'. update_question_status f ts k st = (True, Content (asdict d'))
             \<and> load_data (snd (update_question_status f ts k st)) = (d', [])
             \<and> all_questions d' = xs @ ?q' # ys
             \<and> length (simulation d') = length (simulation ?d)
             \<and> length (real d') = length (real ?d)
             \<and> length (famous d') = length (famous ?d)
             \<and> meta d' = meta ?d" by blast
qed

theorem update_question_status_scan_witness:
  "update_question_status example_file ''2024-05-01T09:00:00'' 7 ''mastered'' = (False, example_file) \<and>
   (\<exists>d'. update_question_status example_file ''2024-05-01T09:00:00'' 2 ''mastered''
            = (True, Content (asdict d'))
      \<and> load_data (snd (update_question_status example_file ''2024-05-01T09:00:00'' 2 ''mastered''))
            = (d', [])
      \<and> all_questions d' =
          [loaded_question 1,
           (loaded_question 2)\<lparr>user_status := JStr ''mastered'', last_reviewed := JStr ''2024-05-01T09:00:00''\<rparr>,
           loaded_question 3, loaded_question 2]
      \<and> length (simulation d') = 2 \<and> length (real d') = 1 \<and> length (famous d') = 1
      \<and> meta d' = default_meta)"
proof -
  have all: "all_questions (fst (load_data example_file)) =
      [loaded_question 1] @ loaded_question 2 # [loaded_question 3, loaded_question 2]"
    by (simp add: load_example_file all_questions_def)
  have no7: "\<forall>q\<in>set (all_questions (fst (load_data example_file))). \<not> py_eq_int (qid q) 7"
    by (simp add: load_example_file all_questions_def loaded_question_def py_eq_int_def)
  have pre: "\<forall>x\<in>set [loaded_question 1]. \<not> py_eq_int (qid x) 2"
    by (simp add: loaded_question_def py_eq_int_def)
  have hit: "py_eq_int (qid (loaded_question 2)) 2"
    by (simp add: loaded_question_def py_eq_int_def)
  from update_question_status_scan [of example_file 7 "''2024-05-01T09:00:00''" "''mastered''"] no7
  have a: "update_question_status example_file ''2024-05-01T09:00:00'' 7 ''mastered'' = (False, example_file)"
    by blast
  from update_question_status_scan [of example_file 2 "''2024-05-01T09:00:00''" "''mastered''"] all pre hit
  have b: "\<exists>d'. update_question_status example_file ''2024-05-01T09:00:00'' 2 ''mastered''
            = (True, Content (asdict d'))
      \<and> load_data (snd (update_question_status example_file ''2024-05-01T09:00:00'' 2 ''mastered''))
            = (d', [])
      \<and> all_questions d' = [loaded_question 1] @ (loaded_question 2)\<lparr>user_status := JStr ''mastered'', last_reviewed := JStr ''2024-05-01T09:00:00''\<rparr> # [loaded_question 3, loaded_question 2]
      \<and> length (simulation d') = length (simulation (fst (load_data example_file)))
      \<and> length (real d') = length (real (fst (load_data example_file)))
      \<and> length (famous d') = length (famous (fst (load_data example_file)))
      \<and> meta d' = meta (fst (load_data example_file))"
    by blast
  then obtain d' where b': "update_question_status example_file ''2024-05-01T09:00:00'' 2 ''mastered''
            = (True, Content (asdict d'))"
      "load_data (snd (update_question_status example_file ''2024-05-01T09:00:00'' 2 ''mastered''))
            = (d', [])"
      "all_questions d' = [loaded_question 1,
           (loaded_question 2)\<lparr>user_status := JStr ''mastered'', last_reviewed := JStr ''2024-05-01T09:00:00''\<rparr>,
           loaded_question 3, loaded_question 2]"
      "length (simulation d') = 2" "length (real d') = 1" "length (famous d') = 1"
      "meta d' = default_meta"
    by (auto simp: load_example_file numeral_2_eq_2)
  with a show ?thesis by blast
qed


lemma mark_data_present:
  assumes "\<exists>q\<in>set (all_questions d). py_eq_int (qid q) k"
  shows "\<exists>d' i. mark_data k st ts d = Some d'
     \<and> meta d' = meta d
     \<and> length (simulation d') = length (simulation d)
     \<and> length (real d') = length (real d)
     \<and> length (famous d') = length (famous d)
     \<and> i = length (takeWhile (\<lambda>q. \<not> py_eq_int (qid q) k) (all_questions d))
     \<and> i < length (all_questions d) \<and> py_eq_int (qid (all_questions d ! i)) k
     \<and> all_questions d' =
         (all_questions d)[i := (all_questions d ! i)\<lparr>user_status := JStr st, last_reviewed := JStr ts\<rparr>]"
proof -
  let ?all = "all_questions d"
  let ?i = "length (takeWhile (\<lambda>q. \<not> py_eq_int (qid q) k) ?all)"
  from assms have "mark k st ts ?all \<noteq> None" by (simp add: mark_None)
  then have i: "?i < length ?all"
    and m: "mark k st ts ?all = Some (?all[?i := (?all ! ?i)\<lparr>user_status := JStr st, last_reviewed := JStr ts\<rparr>])"
    by (simp_all add: mark_index Let_def split: if_splits)
  from i have hit: "py_eq_int (qid (?all ! ?i)) k"
    using nth_length_takeWhile [of "\<lambda>q. \<not> py_eq_int (qid q) k" ?all] by simp
  from m have "mark_data k st ts d \<noteq> None" by (simp add: mark_data_None)
  then obtain d' where d': "mark_data k st ts d = Some d'" by blast
  from mark_data_Some [OF d'] m i hit d' show ?thesis by simp
qed

text \<open>
  C9. When a question with the id exists, the saved data set differs from the loaded one
  in one question only, the first with the id in the order of the scan, and there in
  \<open>user_status\<close> and \<open>last_reviewed\<close> only: the ten other fields of that question,
  every other question, the length and order of each bucket and the meta object are
  what they were. Loading the saved file gives the saved data set back.
\<close>

theorem update_question_status_frame:
  assumes "\<exists>q\<in>set (all_questions (fst (load_data f))). py_eq_int (qid q) k"
  shows "\<exists>d' i. update_question_status f ts k st = (True, save_data d')
     \<and> load_data (save_data d') = (d', [])
     \<and> meta d' = meta (fst (load_data f))
     \<and> length (simulation d') = length (simulation (fst (load_data f)))
     \<and> length (real d') = length (real (fst (load_data f)))
     \<and> length (famous d') = length (famous (fst (load_data f)))
     \<and> i < length (all_questions (fst (load_data f)))
     \<and> py_eq_int (qid (all_questions (fst (load_data f)) ! i)) k
     \<and> all_questions d' =
         (all_questions (fst (load_data f)))
           [i := (all_questions (fst (load_data f)) ! i)\<lparr>user_status := JStr st, last_reviewed := JStr ts\<rparr>]
     \<and> (\<forall>j < length (all_questions d'). j \<noteq> i \<longrightarrow>
            all_questions d' ! j = all_questions (fst (load_data f)) ! j)
     \<and> qid (all_questions d' ! i) = qid (all_questions (fst (load_data f)) ! i)
     \<and> origin_name (all_questions d' ! i) = origin_name (all_questions (fst (load_data f)) ! i)
     \<and> sub_name (all_questions d' ! i) = sub_name (all_questions (fst (load_data f)) ! i)
     \<and> content (all_questions d' ! i) = content (all_questions (fst (load_data f)) ! i)
     \<and> options (all_questions d' ! i) = options (all_questions (fst (load_data f)) ! i)
     \<and> answer (all_questions d' ! i) = answer (all_questions (fst (load_data f)) ! i)
     \<and> analysis (all_questions d' ! i) = analysis (all_questions (fst (load_data f)) ! i)
     \<and> comments (all_questions d' ! i) = comments (all_questions (fst (load_data f)) ! i)
     \<and> qtype (all_questions d' ! i) = qtype (all_questions (fst (load_data f)) ! i)
     \<and> source (all_questions d' ! i) = source (all_questions (fst (load_data f)) ! i)
     \<and> user_status (all_questions d' ! i) = JStr st
     \<and> last_reviewed (all_questions d' ! i) = JStr ts"
proof -
  let ?d = "fst (load_data f)"
  from mark_data_present [OF assms, of st ts] obtain d' i where
    d': "mark_data k st ts ?d = Some d'"
    and frame: "meta d' = meta ?d" "length (simulation d') = length (simulation ?d)"
      "length (real d') = length (real ?d)" "length (famous d') = length (famous ?d)"
    and i: "i < length (all_questions ?d)" "py_eq_int (qid (all_questions ?d ! i)) k"
    and upd: "all_questions d' =
       (all_questions ?d)[i := (all_questions ?d ! i)\<lparr>user_status := JStr st, last_reviewed := JStr ts\<rparr>]"
    by blast
  from d' have "update_question_status f ts k st = (True, save_data d')"
    by (simp add: update_question_status_def)
  with frame i upd show ?thesis
    by (intro exI [of _ d'] exI [of _ i]) (simp add: load_save)
qed


theorem update_question_status_frame_witness:
  "(\<exists>q\<in>set (all_questions (fst (load_data example_file))). py_eq_int (qid q) 2) \<and>
   (\<exists>d' i. update_question_status example_file ''2024-05-01T09:00:00'' 2 ''reviewing'' = (True, save_data d')
      \<and> meta d' = default_meta \<and> i < 4
      \<and> length (simulation d') = 2 \<and> length (real d') = 1 \<and> length (famous d') = 1
      \<and> qid (all_questions d' ! i) = JInt 2
      \<and> user_status (all_questions d' ! i) = JStr ''reviewing''
      \<and> last_reviewed (all_questions d' ! i) = JStr ''2024-05-01T09:00:00'')"
proof -
  let ?d = "fst (load_data example_file)"
  have present: "\<exists>q\<in>set (all_questions ?d). py_eq_int (qid q) 2"
    by (simp add: load_example_file all_questions_def loaded_question_def py_eq_int_def)
  have ids: "\<And>j. py_eq_int (qid (all_questions ?d ! j)) 2 \<Longrightarrow> j < length (all_questions ?d)
      \<Longrightarrow> qid (all_questions ?d ! j) = JInt 2"
    by (simp add: load_example_file all_questions_def loaded_question_def py_eq_int_def
        nth_Cons split: nat.splits)
  from update_question_status_frame [OF present, of "''2024-05-01T09:00:00''" "''reviewing''"]
  obtain d' i where
    u: "update_question_status example_file ''2024-05-01T09:00:00'' 2 ''reviewing'' = (True, save_data d')"
    and m: "meta d' = meta ?d"
    and l: "length (simulation d') = length (simulation ?d)" "length (real d') = length (real ?d)"
       "length (famous d') = length (famous ?d)"
    and i: "i < length (all_questions ?d)" "py_eq_int (qid (all_questions ?d ! i)) 2"
    and q: "qid (all_questions d' ! i) = qid (all_questions ?d ! i)"
    and s: "user_status (all_questions d' ! i) = JStr ''reviewing''"
       "last_reviewed (all_questions d' ! i) = JStr ''2024-05-01T09:00:00''"
    by blast
  from ids [OF i(2) i(1)] q have "qid (all_questions d' ! i) = JInt 2" by simp
  moreover from m have "meta d' = default_meta" by (simp add: load_example_file)
  moreover from i(1) have "i < 4" by (simp add: load_example_file all_questions_def)
  moreover from l have "length (simulation d') = 2" "length (real d') = 1" "length (famous d') = 1"
    by (simp_all add: load_example_file)
  ultimately show ?thesis using present u s by blast
qed

text \<open>
  C7. Two calls with the same id and status, the id being present: both find the same
  question, the persisted \<open>user_status\<close> is the given status after each call, and the
  persisted \<open>last_reviewed\<close> after a call is the timestamp that call read from the
  clock. It is therefore later after the second call exactly when the clock reading of
  the second call is the later one; the code reads the wall clock and does nothing to
  make it so.
\<close>

theorem update_question_status_twice:
  assumes "\<exists>q\<in>set (all_questions (fst (load_data f))). py_eq_int (qid q) k"
  shows "fst (update_question_status f t1 k st)
    \<and> fst (update_question_status (snd (update_question_status f t1 k st)) t2 k st)
    \<and> (\<exists>i < length (all_questions (fst (load_data f))).
        py_eq_int (qid (all_questions (fst (load_data f)) ! i)) k
      \<and> (\<forall>j < i. \<not> py_eq_int (qid (all_questions (fst (load_data f)) ! j)) k)
      \<and> user_status (all_questions (fst (load_data
            (snd (update_question_status f t1 k st)))) ! i) = JStr st
      \<and> last_reviewed (all_questions (fst (load_data
            (snd (update_question_status f t1 k st)))) ! i) = JStr t1
      \<and> user_status (all_questions (fst (load_data
            (snd (update_question_status (snd (update_question_status f t1 k st)) t2 k st)))) ! i)
          = JStr st
      \<and> last_reviewed (all_questions (fst (load_data
            (snd (update_question_status (snd (update_question_status f t1 k st)) t2 k st)))) ! i)
          = JStr t2)"
proof -
  let ?d = "fst (load_data f)"
  let ?all = "all_questions ?d"
  let ?i = "length (takeWhile (\<lambda>q. \<not> py_eq_int (qid q) k) ?all)"
  let ?u1 = "update_question_status f t1 k st"
  let ?u2 = "update_question_status (snd ?u1) t2 k st"
  from mark_data_present [OF assms, of st t1] obtain d1 where
    d1: "mark_data k st t1 ?d = Some d1"
    and i: "?i < length ?all" "py_eq_int (qid (?all ! ?i)) k"
    and a1: "all_questions d1 = ?all[?i := (?all ! ?i)\<lparr>user_status := JStr st, last_reviewed := JStr t1\<rparr>]"
    by blast
  from mark_data_present [OF assms, of st t2] obtain d2 where
    d2: "mark_data k st t2 ?d = Some d2"
    and a2: "all_questions d2 = ?all[?i := (?all ! ?i)\<lparr>user_status := JStr st, last_reviewed := JStr t2\<rparr>]"
    by blast
  have before: "\<forall>j < ?i. \<not> py_eq_int (qid (?all ! j)) k"
  proof (intro allI impI)
    fix j assume "j < ?i"
    then have "?all ! j \<in> set (takeWhile (\<lambda>q. \<not> py_eq_int (qid q) k) ?all)"
      using takeWhile_nth [of j "\<lambda>q. \<not> py_eq_int (qid q) k" ?all] nth_mem by metis
    then show "\<not> py_eq_int (qid (?all ! j)) k" by (rule set_takeWhileD [THEN conjunct2])
  qed
  from d1 have u1: "?u1 = (True, save_data d1)"
    by (simp add: update_question_status_def)
  then have l1: "fst (load_data (snd ?u1)) = d1" by (simp add: load_save)
  from mark_data_again [OF d1, of t2] d2 have "mark_data k st t2 d1 = Some d2" by simp
  with l1 have u2: "?u2 = (True, save_data d2)"
    by (simp add: update_question_status_def)
  then have l2: "fst (load_data (snd ?u2)) = d2" by (simp add: load_save)
  from i a1 a2 have
    "user_status (all_questions d1 ! ?i) = JStr st" "last_reviewed (all_questions d1 ! ?i) = JStr t1"
    "user_status (all_questions d2 ! ?i) = JStr st" "last_reviewed (all_questions d2 ! ?i) = JStr t2"
    by simp_all
  with i before l1 l2 have
    "?i < length ?all \<and> py_eq_int (qid (?all ! ?i)) k
      \<and> (\<forall>j < ?i. \<not> py_eq_int (qid (?all ! j)) k)
      \<and> user_status (all_questions (fst (load_data (snd ?u1))) ! ?i) = JStr st
      \<and> last_reviewed (all_questions (fst (load_data (snd ?u1))) ! ?i) = JStr t1
      \<and> user_status (all_questions (fst (load_data (snd ?u2))) ! ?i) = JStr st
      \<and> last_reviewed (all_questions (fst (load_data (snd ?u2))) ! ?i) = JStr t2"
    by simp
  then have "\<exists>i < length ?all. py_eq_int (qid (?all ! i)) k
      \<and> (\<forall>j < i. \<not> py_eq_int (qid (?all ! j)) k)
      \<and> user_status (all_questions (fst (load_data (snd ?u1))) ! i) = JStr st
      \<and> last_reviewed (all_questions (fst (load_data (snd ?u1))) ! i) = JStr t1
      \<and> user_status (all_questions (fst (load_data (snd ?u2))) ! i) = JStr st
      \<and> last_reviewed (all_questions (fst (load_data (snd ?u2))) ! i) = JStr t2"
    by blast
  moreover from u1 have "fst ?u1" by simp
  moreover from u2 have "fst ?u2" by simp
  ultimately show ?thesis by blast
qed

theorem update_question_status_twice_witness:
  "(\<exists>q\<in>set (all_questions (fst (load_data example_file))). py_eq_int (qid q) 3)
   \<and> fst (update_question_status example_file ''2024-05-01T09:00:00'' 3 ''mastered'')
   \<and> fst (update_question_status
         (snd (update_question_status example_file ''2024-05-01T09:00:00'' 3 ''mastered''))
         ''2024-05-01T09:00:07.250000'' 3 ''mastered'')
   \<and> qid (all_questions (fst (load_data example_file)) ! 2) = JInt 3
   \<and> user_status (all_questions (fst (load_data
         (snd (update_question_status example_file ''2024-05-01T09:00:00'' 3 ''mastered'')))) ! 2)
       = JStr ''mastered''
   \<and> last_reviewed (all_questions (fst (load_data
         (snd (update_question_status example_file ''2024-05-01T09:00:00'' 3 ''mastered'')))) ! 2)
       = JStr ''2024-05-01T09:00:00''
   \<and> user_status (all_questions (fst (load_data
         (snd (update_question_status
            (snd (update_question_status example_file ''2024-05-01T09:00:00'' 3 ''mastered''))
            ''2024-05-01T09:00:07.250000'' 3 ''mastered'')))) ! 2)
       = JStr ''mastered''
   \<and> last_reviewed (all_questions (fst (load_data
         (snd (update_question_status
            (snd (update_question_status example_file ''2024-05-01T09:00:00'' 3 ''mastered''))
            ''2024-05-01T09:00:07.250000'' 3 ''mastered'')))) ! 2)
       = JStr ''2024-05-01T09:00:07.250000''"
proof -
  let ?all = "all_questions (fst (load_data example_file))"
  let ?u1 = "update_question_status example_file ''2024-05-01T09:00:00'' 3 ''mastered''"
  let ?u2 = "update_question_status (snd ?u1) ''2024-05-01T09:00:07.250000'' 3 ''mastered''"
  have all: "?all = [loaded_question 1, loaded_question 2, loaded_question 3, loaded_question 2]"
    by (simp add: load_example_file all_questions_def)
  have present: "\<exists>q\<in>set ?all. py_eq_int (qid q) 3"
    by (simp add: all loaded_question_def py_eq_int_def)
  have third: "qid (?all ! 2) = JInt 3"
    by (simp add: all loaded_question_def)
  from update_question_status_twice [OF present, of "''2024-05-01T09:00:00''" "''mastered''"
      "''2024-05-01T09:00:07.250000''"]
  obtain i where r: "fst ?u1" "fst ?u2"
    and i: "i < length ?all" "py_eq_int (qid (?all ! i)) 3"
    and s: "user_status (all_questions (fst (load_data (snd ?u1))) ! i) = JStr ''mastered''"
      "last_reviewed (all_questions (fst (load_data (snd ?u1))) ! i) = JStr ''2024-05-01T09:00:00''"
      "user_status (all_questions (fst (load_data (snd ?u2))) ! i) = JStr ''mastered''"
      "last_reviewed (all_questions (fst (load_data (snd ?u2))) ! i) = JStr ''2024-05-01T09:00:07.250000''"
    by blast
  from i(1) have "i = 0 \<or> i = 1 \<or> i = 2 \<or> i = 3" by (simp add: all) arith
  with i(2) have "i = 2"
    by (auto simp: all loaded_question_def py_eq_int_def)
  with present r third s show ?thesis by simp
qed

text \<open>
  The claim demands a later \<open>last_reviewed\<close> after the second call. The timestamp is
  the local wall clock, which can step back between two calls (the end of daylight
  saving time, a corrected clock): then the second call stores the earlier text.
\<close>

theorem update_question_status_twice_counterexample:
  "fst (update_question_status example_file ''2024-11-03T01:59:58'' 3 ''mastered'')
   \<and> fst (update_question_status
         (snd (update_question_status example_file ''2024-11-03T01:59:58'' 3 ''mastered''))
         ''2024-11-03T01:00:03'' 3 ''mastered'')
   \<and> last_reviewed (all_questions (fst (load_data
         (snd (update_question_status example_file ''2024-11-03T01:59:58'' 3 ''mastered'')))) ! 2)
       = JStr ''2024-11-03T01:59:58''
   \<and> last_reviewed (all_questions (fst (load_data
         (snd (update_question_status
            (snd (update_question_status example_file ''2024-11-03T01:59:58'' 3 ''mastered''))
            ''2024-11-03T01:00:03'' 3 ''mastered'')))) ! 2)
       = JStr ''2024-11-03T01:00:03''
   \<and> ''2024-11-03T01:00:03'' < ''2024-11-03T01:59:58''"
proof -
  let ?q = "\<lambda>t. (loaded_question 3)\<lparr>user_status := JStr ''mastered'', last_reviewed := JStr t\<rparr>"
  let ?d = "\<lambda>t. \<lparr>meta = default_meta, simulation = [loaded_question 1, loaded_question 2],
       real = [?q t], famous = [loaded_question 2]\<rparr>"
  have no: "\<And>n. n \<noteq> 3 \<Longrightarrow> \<not> py_eq_int (qid (loaded_question n)) 3"
    and yes: "py_eq_int (qid (loaded_question 3)) 3"
    by (simp_all add: loaded_question_def py_eq_int_def)
  have u1: "update_question_status example_file ''2024-11-03T01:59:58'' 3 ''mastered''
      = (True, save_data (?d ''2024-11-03T01:59:58''))"
    by (simp add: update_question_status_def load_example_file mark_data_def no yes)
  have u2: "update_question_status (save_data (?d ''2024-11-03T01:59:58''))
       ''2024-11-03T01:00:03'' 3 ''mastered'' = (True, save_data (?d ''2024-11-03T01:00:03''))"
    by (simp add: update_question_status_def load_save mark_data_def no yes)
  have order: "''2024-11-03T01:00:03'' < ''2024-11-03T01:59:58''" by simp
  show ?thesis
    by (simp only: u1 u2 snd_conv fst_conv load_save) (simp add: all_questions_def)
qed


subsection \<open>Loading a missing or malformed file\<close>

text \<open>
  C5. When the file is missing, is not a JSON document, or is a JSON document on which
  the construction of the data set raises, \<open>load_data\<close> returns the data set with the
  default meta and three empty buckets. The exception is printed (nothing is printed for
  a missing file, where none is raised) and none leaves the function: \<open>load_data\<close>
  has a result for every file.
\<close>

theorem load_data_missing_or_unparseable:
  assumes "f = Missing \<or> f = Unparseable \<or> (\<exists>raw. f = Content raw \<and> isl (parse_data raw))"
  shows "fst (load_data f) = empty_data
    \<and> meta (fst (load_data f)) = JObj [(''last_sync'', JNull), (''version'', JStr ''1.0'')]
    \<and> simulation (fst (load_data f)) = [] \<and> real (fst (load_data f)) = []
    \<and> famous (fst (load_data f)) = []
    \<and> (f = Missing \<longrightarrow> snd (load_data f) = [])
    \<and> (f = Unparseable \<longrightarrow> snd (load_data f) = [JSONDecodeError])
    \<and> (\<forall>raw. f = Content raw \<longrightarrow> snd (load_data f) = [projl (parse_data raw)])"
  using assms
  by (auto simp: load_data_def empty_data_def default_meta_def split: sum.splits)

theorem load_data_missing_or_unparseable_witness:
  "fst (load_data Missing) = empty_data \<and> snd (load_data Missing) = []
   \<and> fst (load_data Unparseable) = empty_data \<and> snd (load_data Unparseable) = [JSONDecodeError]
   \<and> isl (parse_data (JList []))
   \<and> fst (load_data (Content (JList []))) = empty_data
   \<and> snd (load_data (Content (JList []))) = [AttributeError]"
proof -
  have p: "parse_data (JList []) = Inl AttributeError"
    by (simp add: parse_data_def andThen_def)
  then have i: "isl (parse_data (JList []))" by simp
  from load_data_missing_or_unparseable [of Missing]
    load_data_missing_or_unparseable [of Unparseable]
    load_data_missing_or_unparseable [of "Content (JList [])"] i p
  show ?thesis by simp
qed

lemma andThen_isl: "isl r \<Longrightarrow> isl (andThen r f)"
  by (cases r) (simp_all add: andThen_def)

lemma andThen_isl_next: "(\<And>x. isl (f x)) \<Longrightarrow> isl (andThen r f)"
  by (cases r) (simp_all add: andThen_def)

lemma traverse_fails: "x \<in> set xs \<Longrightarrow> isl (f x) \<Longrightarrow> isl (traverse f xs)"
proof (induction xs)
  case Nil
  then show ?case by simp
next
  case (Cons a xs)
  show ?case
  proof (cases "f a")
    case (Inl e)
    then show ?thesis by (simp add: andThen_def)
  next
    case (Inr y)
    with Cons have "isl (traverse f xs)" by auto
    with Inr show ?thesis by (cases "traverse f xs") (simp_all add: andThen_def)
  qed
qed

lemma parse_questions_fails:
  "q \<in> set qs \<Longrightarrow> isl (parse_question q) \<Longrightarrow> isl (parse_questions (JList qs))"
  by (simp add: parse_questions_def andThen_def traverse_fails)

lemma missing_key_fails:
  assumes "key \<in> set required_keys" "map_of entries key = None"
  shows "isl (parse_question (JObj entries))"
proof -
  have k1: "map_of entries ''id'' = None \<Longrightarrow> ?thesis"
    by (simp add: parse_question_def andThen_def)
  have k2: "map_of entries ''origin_name'' = None \<Longrightarrow> ?thesis"
    by (simp add: parse_question_def andThen_def split: option.splits sum.splits)
  have k3: "map_of entries ''sub_name'' = None \<Longrightarrow> ?thesis"
    by (simp add: parse_question_def andThen_def split: option.splits sum.splits)
  have k4: "map_of entries ''content'' = None \<Longrightarrow> ?thesis"
    by (simp add: parse_question_def andThen_def split: option.splits sum.splits)
  have k5: "map_of entries ''options'' = None \<Longrightarrow> ?thesis"
    by (simp add: parse_question_def andThen_def split: option.splits sum.splits)
  have k6: "map_of entries ''answer'' = None \<Longrightarrow> ?thesis"
    by (simp add: parse_question_def andThen_def split: option.splits sum.splits)
  have k7: "map_of entries ''analysis'' = None \<Longrightarrow> ?thesis"
    by (simp add: parse_question_def andThen_def split: option.splits sum.splits)
  from assms(1) have "key = ''id'' \<or> key = ''origin_name'' \<or> key = ''sub_name''
      \<or> key = ''content'' \<or> key = ''options'' \<or> key = ''answer'' \<or> key = ''analysis''"
    unfolding required_keys_def by (simp only: list.set insert_iff empty_iff HOL.simp_thms)
  with assms(2) k1 k2 k3 k4 k5 k6 k7 show ?thesis by (elim disjE) simp_all
qed


lemma parse_data_fails:
  assumes "b = ''simulation'' \<or> b = ''real'' \<or> b = ''famous''"
    and "map_of kvs b = Some (JList qs)"
    and "isl (parse_questions (JList qs))"
  shows "isl (parse_data (JObj kvs))"
proof -
  from assms(3) obtain e where e: "parse_questions (JList qs) = Inl e"
    by (cases "parse_questions (JList qs)") simp_all
  from assms(1) show ?thesis
  proof (elim disjE)
    assume "b = ''simulation''"
    with assms(2) e show ?thesis by (simp add: parse_data_def andThen_def)
  next
    assume "b = ''real''"
    with assms(2) e show ?thesis
      by (simp add: parse_data_def andThen_def split: sum.splits)
  next
    assume "b = ''famous''"
    with assms(2) e show ?thesis
      by (simp add: parse_data_def andThen_def split: sum.splits)
  qed
qed

text \<open>
  C10. One malformed record in any bucket, for instance a record that lacks one of the
  seven required keys, makes \<open>load_data\<close> return the empty default data set: the
  well-formed records of the file are discarded with it.
\<close>

theorem load_data_malformed_record:
  assumes "b = ''simulation'' \<or> b = ''real'' \<or> b = ''famous''"
    and "map_of kvs b = Some (JList qs)"
    and "q \<in> set qs"
    and "(\<exists>entries key. q = JObj entries \<and> key \<in> set required_keys \<and> map_of entries key = None)
         \<or> isl (parse_question q)"
  shows "fst (load_data (Content (JObj kvs))) = empty_data
       \<and> simulation (fst (load_data (Content (JObj kvs)))) = []
       \<and> real (fst (load_data (Content (JObj kvs)))) = []
       \<and> famous (fst (load_data (Content (JObj kvs)))) = []
       \<and> snd (load_data (Content (JObj kvs))) \<noteq> []"
proof -
  from assms(4) have "isl (parse_question q)"
    by (auto intro: missing_key_fails)
  with assms(3) have "isl (parse_questions (JList qs))"
    by (rule parse_questions_fails)
  with assms(1,2) have "isl (parse_data (JObj kvs))"
    by (rule parse_data_fails)
  then show ?thesis
    by (cases "parse_data (JObj kvs)") (simp_all add: load_data_def empty_data_def)
qed

theorem load_data_malformed_record_witness:
  "map_of [(''meta'', default_meta),
           (''simulation'', JList [legacy_record 1, legacy_record 2]),
           (''real'', JList [legacy_record 3, JObj [(''id'', JInt 4), (''content'', JStr ''Q'')]]),
           (''famous'', JList [])] ''real''
     = Some (JList [legacy_record 3, JObj [(''id'', JInt 4), (''content'', JStr ''Q'')]])
   \<and> JObj [(''id'', JInt 4), (''content'', JStr ''Q'')]
        \<in> set [legacy_record 3, JObj [(''id'', JInt 4), (''content'', JStr ''Q'')]]
   \<and> ''analysis'' \<in> set required_keys
   \<and> map_of [(''id'', JInt 4), (''content'', JStr ''Q'')] ''analysis'' = None
   \<and> parse_question (legacy_record 1) = Inr (loaded_question 1)
   \<and> fst (load_data broken_file) = empty_data
   \<and> snd (load_data broken_file) \<noteq> []"
proof -
  let ?bad = "JObj [(''id'', JInt 4), (''content'', JStr ''Q'')]"
  have b: "''real'' = ''simulation'' \<or> ''real'' = ''real'' \<or> ''real'' = ''famous''" by simp
  have m: "map_of [(''meta'', default_meta),
           (''simulation'', JList [legacy_record 1, legacy_record 2]),
           (''real'', JList [legacy_record 3, ?bad]),
           (''famous'', JList [])] ''real'' = Some (JList [legacy_record 3, ?bad])" by simp
  have q: "?bad \<in> set [legacy_record 3, ?bad]" by simp
  have k: "''analysis'' \<in> set required_keys" by (simp add: required_keys_def)
  have n: "map_of [(''id'', JInt 4), (''content'', JStr ''Q'')] ''analysis'' = None" by simp
  from k n have h: "(\<exists>entries key. ?bad = JObj entries \<and> key \<in> set required_keys \<and> map_of entries key = None)
         \<or> isl (parse_question ?bad)" by blast
  from load_data_malformed_record [OF b m q h] m q k n parse_legacy_record [of 1]
  show ?thesis by (simp add: broken_file_def)
qed

subsection \<open>Loading and saving again\<close>

lemma map_of_value_of:
  "map_of (map (map_prod id value_of) kvs) k = map_option value_of (map_of kvs k)"
  by (induction kvs) auto

lemma lookup_value_of:
  "fmlookup (fmap_of_list (map (map_prod id value_of) kvs)) k = map_option value_of (map_of kvs k)"
  by (simp add: fmlookup_of_list map_of_value_of)

lemma map_of_None_keys: "k \<notin> set (map fst kvs) \<Longrightarrow> map_of kvs k = None"
  by (simp add: map_of_eq_None_iff)

lemma map_of_Some_keys: "k \<in> set (map fst kvs) \<Longrightarrow> \<exists>v. map_of kvs k = Some v"
  by (cases "map_of kvs k") (auto simp: map_of_eq_None_iff)

lemma option_round:
  assumes "well_formed_option o'"
  shows "\<exists>opt. parse_option o' = Inr opt \<and> value_of (option_asdict opt) = value_of o'"
proof -
  from assms obtain kvs where o: "o' = JObj kvs" and keys: "set (map fst kvs) = {''label'', ''content''}"
    by (cases o') auto
  from keys obtain l c where l: "map_of kvs ''label'' = Some l" and c: "map_of kvs ''content'' = Some c"
    using map_of_Some_keys [of "''label''" kvs] map_of_Some_keys [of "''content''" kvs] by auto
  have "fmap_of_list [(''label'', value_of l), (''content'', value_of c)]
        = fmap_of_list (map (map_prod id value_of) kvs)"
  proof (rule fmap_ext)
    fix k
    show "fmlookup (fmap_of_list [(''label'', value_of l), (''content'', value_of c)]) k
        = fmlookup (fmap_of_list (map (map_prod id value_of) kvs)) k"
    proof (cases "k \<in> set (map fst kvs)")
      case True
      with keys have "k = ''label'' \<or> k = ''content''" by auto
      with l c show ?thesis by (auto simp: lookup_value_of)
    next
      case False
      with keys have "k \<noteq> ''label''" "k \<noteq> ''content''" by auto
      with False show ?thesis by (simp add: lookup_value_of map_of_None_keys)
    qed
  qed
  with o keys l c show ?thesis by (simp add: option_asdict_def)
qed

lemma traverse_round:
  assumes "list_all ok xs"
    and "\<And>x. ok x \<Longrightarrow> \<exists>y. f x = Inr y \<and> value_of (g y) = value_of x"
  shows "\<exists>ys. traverse f xs = Inr ys \<and> map value_of (map g ys) = map value_of xs"
  using assms(1)
proof (induction xs)
  case Nil
  then show ?case by simp
next
  case (Cons x xs)
  then obtain ys where ys: "traverse f xs = Inr ys" "map value_of (map g ys) = map value_of xs"
    by auto
  from Cons.prems assms(2) [of x] obtain y where y: "f x = Inr y" "value_of (g y) = value_of x"
    by auto
  from ys y show ?case by (simp add: andThen_def)
qed

lemma question_round:
  assumes "well_formed_question q"
  shows "\<exists>qq. parse_question q = Inr qq \<and> value_of (question_asdict qq) = value_of q"
proof -
  from assms obtain kvs where q: "q = JObj kvs" and keys: "set (map fst kvs) = set question_keys"
    by (cases q) auto
  from assms q obtain os where os: "map_of kvs ''options'' = Some (JList os)"
    and wfo: "list_all well_formed_option os"
    by (auto split: option.splits json.splits)
  from traverse_round [of well_formed_option os parse_option option_asdict, OF wfo option_round]
  obtain opts where opts: "traverse parse_option os = Inr opts"
    "map value_of (map option_asdict opts) = map value_of os" by blast
  have present: "\<And>k. k \<in> set question_keys \<Longrightarrow> \<exists>v. map_of kvs k = Some v"
    using keys map_of_Some_keys [of _ kvs] by simp
  obtain v1 where v1: "map_of kvs ''id'' = Some v1"
    using present [of "''id''"] by (auto simp: question_keys_def)
  obtain v2 where v2: "map_of kvs ''origin_name'' = Some v2"
    using present [of "''origin_name''"] by (auto simp: question_keys_def)
  obtain v3 where v3: "map_of kvs ''sub_name'' = Some v3"
    using present [of "''sub_name''"] by (auto simp: question_keys_def)
  obtain v4 where v4: "map_of kvs ''content'' = Some v4"
    using present [of "''content''"] by (auto simp: question_keys_def)
  obtain v6 where v6: "map_of kvs ''answer'' = Some v6"
    using present [of "''answer''"] by (auto simp: question_keys_def)
  obtain v7 where v7: "map_of kvs ''analysis'' = Some v7"
    using present [of "''analysis''"] by (auto simp: question_keys_def)
  obtain v8 where v8: "map_of kvs ''comments'' = Some v8"
    using present [of "''comments''"] by (auto simp: question_keys_def)
  obtain v9 where v9: "map_of kvs ''type'' = Some v9"
    using present [of "''type''"] by (auto simp: question_keys_def)
  obtain v10 where v10: "map_of kvs ''user_status'' = Some v10"
    using present [of "''user_status''"] by (auto simp: question_keys_def)
  obtain v11 where v11: "map_of kvs ''last_reviewed'' = Some v11"
    using present [of "''last_reviewed''"] by (auto simp: question_keys_def)
  obtain v12 where v12: "map_of kvs ''source'' = Some v12"
    using present [of "''source''"] by (auto simp: question_keys_def)
  let ?qq = "\<lparr>qid = v1, origin_name = v2, sub_name = v3, content = v4, options = opts,
      answer = v6, analysis = v7, comments = v8, qtype = v9, user_status = v10,
      last_reviewed = v11, source = v12\<rparr>"
  have parse: "parse_question q = Inr ?qq"
    by (simp add: q parse_question_def andThen_def v1 v2 v3 v4 os opts v6 v7 v8 v9 v10 v11 v12)
  let ?canon = "[(''id'', value_of v1), (''origin_name'', value_of v2), (''sub_name'', value_of v3),
      (''content'', value_of v4), (''options'', VList (map value_of os)),
      (''answer'', value_of v6), (''analysis'', value_of v7), (''comments'', value_of v8),
      (''type'', value_of v9), (''user_status'', value_of v10),
      (''last_reviewed'', value_of v11), (''source'', value_of v12)]"
  have "fmap_of_list ?canon = fmap_of_list (map (map_prod id value_of) kvs)"
  proof (rule fmap_ext)
    fix k
    show "fmlookup (fmap_of_list ?canon) k = fmlookup (fmap_of_list (map (map_prod id value_of) kvs)) k"
    proof (cases "k \<in> set question_keys")
      case True
      then have "k = ''id'' \<or> k = ''origin_name'' \<or> k = ''sub_name'' \<or> k = ''content''
        \<or> k = ''options'' \<or> k = ''answer'' \<or> k = ''analysis'' \<or> k = ''comments''
        \<or> k = ''type'' \<or> k = ''user_status'' \<or> k = ''last_reviewed'' \<or> k = ''source''"
        unfolding question_keys_def by (simp only: list.set insert_iff empty_iff HOL.simp_thms)
      then show ?thesis
        by (elim disjE)
           (simp_all add: map_of_value_of fmlookup_of_list v1 v2 v3 v4 os v6 v7 v8 v9 v10 v11 v12)
    next
      case False
      then have "map_of ?canon k = None"
        unfolding question_keys_def by simp
      moreover from False keys have "map_of kvs k = None"
        by (simp add: map_of_None_keys)
      ultimately show ?thesis
        by (simp only: fmlookup_of_list map_of_value_of option.map)
    qed
  qed
  with opts(2) have "value_of (question_asdict ?qq) = value_of q"
    by (simp add: q question_asdict_def)
  with parse show ?thesis by blast
qed

lemma bucket_round:
  assumes "well_formed_bucket (Some b)"
  shows "\<exists>qs. parse_questions b = Inr qs \<and> value_of (JList (map question_asdict qs)) = value_of b"
proof -
  from assms obtain raw_qs where b: "b = JList raw_qs" and ok: "list_all well_formed_question raw_qs"
    by (auto simp: well_formed_bucket_def split: json.splits)
  from traverse_round [of well_formed_question raw_qs parse_question question_asdict,
      OF ok question_round]
  obtain qs where "traverse parse_question raw_qs = Inr qs"
    "map value_of (map question_asdict qs) = map value_of raw_qs" by blast
  with b show ?thesis by (simp add: parse_questions_def andThen_def)
qed

lemma well_formed_round_trip:
  assumes "well_formed_file f"
  shows "\<exists>raw raw'. f = Content raw \<and> snd (load_data f) = []
     \<and> save_data (fst (load_data f)) = Content raw' \<and> value_of raw' = value_of raw
     \<and> save_data (fst (load_data (save_data (fst (load_data f))))) = save_data (fst (load_data f))"
proof -
  from assms obtain kvs where f: "f = Content (JObj kvs)"
    and keys: "set (map fst kvs) = {''meta'', ''simulation'', ''real'', ''famous''}"
    and wb: "well_formed_bucket (map_of kvs ''simulation'')"
      "well_formed_bucket (map_of kvs ''real'')" "well_formed_bucket (map_of kvs ''famous'')"
    by (cases f rule: well_formed_file.cases) auto
  obtain m where m: "map_of kvs ''meta'' = Some m"
    using keys map_of_Some_keys [of "''meta''" kvs] by auto
  from wb obtain bs br bf where bs: "map_of kvs ''simulation'' = Some bs"
    and br: "map_of kvs ''real'' = Some br" and bf: "map_of kvs ''famous'' = Some bf"
    by (auto simp: well_formed_bucket_def split: option.splits)
  from wb(1) bs bucket_round [of bs] obtain sim where sim: "parse_questions bs = Inr sim"
    "value_of (JList (map question_asdict sim)) = value_of bs" by auto
  from wb(2) br bucket_round [of br] obtain rea where rea: "parse_questions br = Inr rea"
    "value_of (JList (map question_asdict rea)) = value_of br" by auto
  from wb(3) bf bucket_round [of bf] obtain fam where fam: "parse_questions bf = Inr fam"
    "value_of (JList (map question_asdict fam)) = value_of bf" by auto
  let ?d = "\<lparr>meta = m, simulation = sim, real = rea, famous = fam\<rparr>"
  have parse: "parse_data (JObj kvs) = Inr ?d"
    by (simp add: parse_data_def andThen_def m bs br bf sim rea fam)
  then have load: "load_data f = (?d, [])" by (simp add: f load_data_def)
  let ?canon = "[(''meta'', value_of m), (''simulation'', value_of bs),
      (''real'', value_of br), (''famous'', value_of bf)]"
  have "fmap_of_list ?canon = fmap_of_list (map (map_prod id value_of) kvs)"
  proof (rule fmap_ext)
    fix k
    show "fmlookup (fmap_of_list ?canon) k = fmlookup (fmap_of_list (map (map_prod id value_of) kvs)) k"
    proof (cases "k \<in> set (map fst kvs)")
      case True
      with keys have "k = ''meta'' \<or> k = ''simulation'' \<or> k = ''real'' \<or> k = ''famous''"
        by (simp only: insert_iff empty_iff HOL.simp_thms)
      then show ?thesis
        by (elim disjE) (simp_all add: map_of_value_of fmlookup_of_list m bs br bf)
    next
      case False
      with keys have "k \<noteq> ''meta''" "k \<noteq> ''simulation''" "k \<noteq> ''real''" "k \<noteq> ''famous''"
        by auto
      with False show ?thesis
        by (simp add: map_of_value_of fmlookup_of_list map_of_None_keys)
    qed
  qed
  with sim(2) rea(2) fam(2) have "value_of (asdict ?d) = value_of (JObj kvs)"
    by (simp add: asdict_def)
  with f load load_save [of ?d] show ?thesis
    by (simp add: save_data_def)
qed

lemma synced_file_well_formed: "well_formed_file synced_file"
  by code_simp

text \<open>
  C6. For a file that \<open>load_data\<close> reads without an error, saving what was loaded
  leaves the stored data set unchanged: loading the new file gives the data set the
  old file gave, and a further load and save writes the same document again, key order
  included. When the file has the shape of a data set (all keys present), the document
  written has the content of the document read; they differ in the order of keys at
  most.
\<close>

theorem save_load_round_trip:
  assumes "snd (load_data (Content raw)) = []"
  shows "load_data (save_data (fst (load_data (Content raw)))) = load_data (Content raw)
     \<and> save_data (fst (load_data (save_data (fst (load_data (Content raw))))))
         = save_data (fst (load_data (Content raw)))
     \<and> (well_formed_file (Content raw) \<longrightarrow>
          (\<exists>raw'. save_data (fst (load_data (Content raw))) = Content raw'
             \<and> value_of raw' = value_of raw))"
proof (intro conjI impI)
  from assms show "load_data (save_data (fst (load_data (Content raw)))) = load_data (Content raw)"
    by (simp add: load_save prod_eq_iff)
  show "save_data (fst (load_data (save_data (fst (load_data (Content raw))))))
         = save_data (fst (load_data (Content raw)))"
    by (simp add: load_save)
  assume "well_formed_file (Content raw)"
  from well_formed_round_trip [OF this]
  show "\<exists>raw'. save_data (fst (load_data (Content raw))) = Content raw' \<and> value_of raw' = value_of raw"
    by auto
qed

theorem save_load_round_trip_witness:
  "snd (load_data synced_file) = [] \<and> well_formed_file synced_file
   \<and> load_data (save_data (fst (load_data synced_file))) = load_data synced_file
   \<and> save_data (fst (load_data (save_data (fst (load_data synced_file)))))
         = save_data (fst (load_data synced_file))
   \<and> (\<exists>raw raw'. synced_file = Content raw
          \<and> save_data (fst (load_data synced_file)) = Content raw'
          \<and> value_of raw' = value_of raw)"
proof -
  obtain raw where raw: "synced_file = Content raw" by (simp add: synced_file_def)
  from well_formed_round_trip [OF synced_file_well_formed]
  have ok: "snd (load_data (Content raw)) = []" by (auto simp: raw)
  from save_load_round_trip [OF ok] ok synced_file_well_formed raw
  show ?thesis by auto
qed

text \<open>
  A legacy record, which lacks the five optional keys, is written back with these keys
  and their defaults: such a file does not have the shape of a data set.
\<close>

lemma legacy_record_saved:
  "question_asdict (loaded_question n) =
     JObj [(''id'', JInt n), (''origin_name'', JStr ''Paper''), (''sub_name'', JStr ''''),
           (''content'', JStr ''Q''),
           (''options'', JList [JObj [(''label'', JStr ''A''), (''content'', JStr ''yes'')]]),
           (''answer'', JList [JStr ''A'']), (''analysis'', JStr ''''),
           (''comments'', JList []), (''type'', JInt 0), (''user_status'', JStr ''new''),
           (''last_reviewed'', JNull), (''source'', JNull)]"
  by (simp add: question_asdict_def loaded_question_def option_asdict_def)

lemma legacy_file_not_well_formed: "\<not> well_formed_file example_file"
  by code_simp


section \<open>Properties of the normalizer\<close>

lemma decimal_cases:
  assumes "is_decimal d"
  shows "d = CHR ''0'' \<or> d = CHR ''1'' \<or> d = CHR ''2'' \<or> d = CHR ''3'' \<or> d = CHR ''4''
     \<or> d = CHR ''5'' \<or> d = CHR ''6'' \<or> d = CHR ''7'' \<or> d = CHR ''8'' \<or> d = CHR ''9''"
proof -
  let ?n = "of_char d :: nat"
  from assms have "48 \<le> ?n \<and> ?n \<le> 57" by (simp add: is_decimal_def Let_def)
  then have "?n = 48 \<or> ?n = 49 \<or> ?n = 50 \<or> ?n = 51 \<or> ?n = 52 \<or> ?n = 53 \<or> ?n = 54
     \<or> ?n = 55 \<or> ?n = 56 \<or> ?n = 57" by arith
  then have "char_of ?n \<in> char_of ` {48, 49, 50, 51, 52, 53, 54, 55, 56, 57 :: nat}" by blast
  moreover have "char_of (48::nat) = CHR ''0''" "char_of (49::nat) = CHR ''1''"
    "char_of (50::nat) = CHR ''2''" "char_of (51::nat) = CHR ''3''" "char_of (52::nat) = CHR ''4''"
    "char_of (53::nat) = CHR ''5''" "char_of (54::nat) = CHR ''6''" "char_of (55::nat) = CHR ''7''"
    "char_of (56::nat) = CHR ''8''" "char_of (57::nat) = CHR ''9''"
    by code_simp+
  ultimately show ?thesis by simp
qed

lemma digit_labels_step:
  assumes "is_decimal d"
  shows "digit_labels (d # rest) = andThen (digit_labels rest) (\<lambda>ls. Inr (label_of_digit d @ ls))"
  using decimal_cases [OF assms]
  by (elim disjE) (simp_all add: label_of_digit_def digit_value_def is_decimal_def Let_def)

lemma digit_labels_decimal:
  "list_all is_decimal s \<Longrightarrow> digit_labels s = Inr (concat (map label_of_digit s))"
proof (induction s)
  case Nil
  then show ?case by simp
next
  case (Cons d s)
  then have "is_decimal d" and "digit_labels s = Inr (concat (map label_of_digit s))" by simp_all
  then show ?case by (simp only: digit_labels_step) (simp add: andThen_def)
qed

lemma decimal_isdigit: "is_decimal c \<Longrightarrow> py_isdigit_char c"
  by (simp add: py_isdigit_char_def Let_def)

lemma decode_answer_decimal:
  assumes "s \<noteq> []" "list_all is_decimal s"
  shows "decode_answer s = Inr (concat (map label_of_digit s))"
proof -
  from assms have "py_isdigit s"
    by (auto simp: py_isdigit_def list_all_iff decimal_isdigit)
  with assms show ?thesis by (simp add: decode_answer_def digit_labels_decimal)
qed

lemma decode_answer_other:
  assumes "s \<noteq> []" "\<not> py_isdigit s"
  shows "decode_answer s = Inr (map (\<lambda>piece. JStr (py_upper (py_strip piece))) (split_on CHR '','' s))"
  using assms by (simp add: decode_answer_def)

lemma decode_answer_examples:
  "decode_answer ''13'' = Inr [JStr ''A'', JStr ''C'']"
  "decode_answer ''5'' = Inr []"
  "decode_answer ''b,d'' = Inr [JStr ''B'', JStr ''D'']"
  by code_simp+

lemma digit_labels_fails:
  "\<not> list_all is_decimal s \<Longrightarrow> digit_labels s = Inl ValueError"
  by (induction s) (auto simp: andThen_def)

text \<open>
  C2. The decoding is as claimed for an answer key of decimal digits and for a key that
  is no digit text (the lemmas above, with the three examples of the specification).
  But \<open>str.isdigit\<close> accepts digits that \<open>int\<close> rejects: for the key that is the
  superscript two the numeric branch is taken and \<open>int(digit)\<close> raises ValueError, so
  no answer list is produced and the question is not normalized at all.
\<close>

theorem decode_answer_superscript_digit:
  "py_strip [CHR 0xB2] = [CHR 0xB2] \<and> py_isdigit [CHR 0xB2]
   \<and> decode_answer [CHR 0xB2] = Inl ValueError
   \<and> normalize_question
        (JObj [(''id'', JInt 1), (''title'', JStr ''Q''), (''correct'', JStr [CHR 0xB2])])
        ''simulation'' (JStr ''Paper'') (JStr ''Roll'') = Inl ValueError"
  by code_simp

text \<open>
  C8. A raw question whose title is null is not empty, and the content of its normalized
  question is null, not the empty text: \<open>get\<close> returns its default for a missing key
  only. The lemmas after the theorem give the part of the claim that holds: the result
  is None for a falsy raw question only, and the content is the raw title, the empty text
  when the key is missing.
\<close>

theorem normalize_question_null_title:
  "normalize_question (JObj [(''id'', JInt 7), (''title'', JNull)])
        ''real'' (JStr ''Paper'') (JStr '''')
     = Inr (Some (JObj
         [(''id'', JInt 7), (''origin_name'', JStr ''Paper''), (''sub_name'', JStr ''''),
          (''type'', JInt 0), (''content'', JNull), (''options'', JList []),
          (''answer'', JList []), (''analysis'', JStr ''''), (''user_status'', JStr ''new''),
          (''last_reviewed'', JNull), (''comments'', JList []), (''source'', JStr ''real'')]))"
  by code_simp

text \<open>A block returns a value only if each of its statements did.\<close>

lemma andThen_Inr: "andThen r f = Inr y \<longleftrightarrow> (\<exists>x. r = Inr x \<and> f x = Inr y)"
  by (cases r) (simp_all add: andThen_def)

lemma normalize_question_None:
  "normalize_question qd src orig sub = Inr None \<longleftrightarrow> \<not> truthy qd"
  by (simp add: normalize_question_def andThen_Inr)

lemma normalize_question_content:
  assumes "normalize_question (JObj raw) src orig sub = Inr (Some q)"
  shows "getitem q ''content'' = Inr (case map_of raw ''title'' of None \<Rightarrow> JStr '''' | Some t \<Rightarrow> t)"
proof -
  from assms have t: "truthy (JObj raw)"
    by (cases "truthy (JObj raw)") (simp_all add: normalize_question_def)
  with assms obtain i ty title explain opts correct ans where
    title: "get (JObj raw) ''title'' (JStr '''') = Inr title"
    and q: "q = JObj
            [(''id'', i), (''origin_name'', orig), (''sub_name'', sub), (''type'', ty),
             (''content'', title), (''options'', JList opts), (''answer'', JList ans),
             (''analysis'', explain), (''user_status'', JStr ''new''),
             (''last_reviewed'', JNull), (''comments'', JList []),
             (''source'', JStr src)]"
    by (auto simp: normalize_question_def andThen_Inr simp del: collect_options.simps get.simps)
  from title have "title = (case map_of raw ''title'' of None \<Rightarrow> JStr '''' | Some t \<Rightarrow> t)"
    by simp
  with q show ?thesis by simp
qed


section \<open>Properties of the batcher\<close>

declare chunks.simps [simp del]

lemma chunks_Nil [simp]: "chunks n [] = []"
  by (simp add: chunks.simps)



















section \<open>Incremental synchronisation\<close>

text \<open>The filter of the incremental mode keeps the ids that are not among the existing ones.\<close>

lemma drop_existing_fresh:
  "drop_existing existing qids = Inr qs \<Longrightarrow>
     \<forall>q\<in>set qs. q \<in> set qids \<and> (\<forall>n. as_int q = Some n \<longrightarrow> n \<notin> existing)"
proof (induction qids arbitrary: qs)
  case Nil
  then show ?case by simp
next
  case (Cons q qids)
  from Cons.prems obtain there rest where
    t: "py_member q existing = Inr there" and r: "drop_existing existing qids = Inr rest"
    and qs: "qs = (if there then rest else q # rest)"
    by (auto simp: andThen_def split: sum.splits)
  from t have fresh: "\<not> there \<Longrightarrow> \<forall>n. as_int q = Some n \<longrightarrow> n \<notin> existing"
    by (cases q) (auto split: option.splits)
  from Cons.IH [OF r] qs fresh show ?case by auto
qed

text \<open>
  C1. The example run in incremental mode: the data file holds the ids 1, 2 and 3 in its
  simulation bucket and the service lists the ids 1 to 5. Only the ids 4 and 5 are asked
  for, as the claim says. But the file \<open>sync_data\<close> writes holds the two new questions
  only: the result of \<open>fetch_all_errors\<close> starts from empty buckets and replaces the
  file, so the questions 1, 2 and 3 are deleted instead of being left untouched.
\<close>

theorem sync_data_incremental_overwrites:
  "INCREMENTAL example_config
   \<and> ids_simulation (load_existing_ids local_file) = {1, 2, 3}
   \<and> sync_data example_upstream example_config local_file ''2024-06-01T00:00:00Z'' []
      = ((True,
          Content (JObj [(''meta'', JObj [(''last_sync'', JStr ''2024-06-01T00:00:00Z''),
                                          (''version'', JStr ''1.0'')]),
                         (''simulation'', JList [fetched_question 4, fetched_question 5]),
                         (''real'', JList []),
                         (''famous'', JList [])])),
         [\<lparr>url = ''/tk/getError'', params = [(''type'', JInt 5)], version = ''v2''\<rparr>,
          details_request [JInt 4, JInt 5],
          \<lparr>url = ''/tk/getError'', params = [(''type'', JInt 4)], version = ''v2''\<rparr>,
          \<lparr>url = ''/tk/getError'', params = [(''type'', JInt 3)], version = ''v2''\<rparr>])"
  by code_simp

end
